theory Spec2Isabelle
  imports Main
begin

section \<open>The calibration overlay of the printer control panel\<close>

text \<open>
  A shallow embedding of \<^verbatim>\<open>frontend/src/components/control/CalibrationModal.tsx\<close>.
  The React component is a function of its props (\<^verbatim>\<open>printer\<close>, \<^verbatim>\<open>status\<close>) and of its
  state cells; it is modelled by a record of props and cells, by one function per event
  handler and per \<^verbatim>\<open>useEffect\<close>, and by a function that renders until the cells no
  longer change. The body of the component reads the stored selection record with the
  platform's \<^verbatim>\<open>JSON.parse\<close>, which throws on text that is not JSON, so the platform
  function is modelled first.

  Strings of the program are lists of characters; a text read from the store is a list of
  8-bit characters, each standing for the code unit of the same number. The content of a
  JSON string is kept as a list of code units (natural numbers), since an escape
  \<^verbatim>\<open>\uXXXX\<close> denotes any 16-bit unit.
\<close>

subsection \<open>JSON.parse\<close>

text \<open>
  A JSON text is split into tokens (white space is space, tab, line feed and carriage
  return; a number is an optional minus, an integer part without leading zero, an optional
  fraction and an optional exponent; a string is quoted, with the escapes of ECMA-404 and
  no raw control character), and the tokens are read by a stack automaton that accepts
  exactly one value. A number \<open>JNumber m e\<close> denotes \<open>m \<times> 10\<^sup>e\<close>. An object keeps its
  members in the order of the text; a later member of the same name overrides an earlier
  one when a property is read.
\<close>

datatype jsError = SyntaxError

datatype json =
    JNull
  | JBool bool
  | JNumber int int
  | JString "nat list"
  | JArray "json list"
  | JObject "(nat list \<times> json) list"

datatype token =
    TLBrace | TRBrace | TLBracket | TRBracket | TColon | TComma
  | TTrue | TFalse | TNull
  | TString "nat list"
  | TNumber int int

definition isWhitespace :: "char \<Rightarrow> bool" where
  "isWhitespace c = (c = CHR 0x20 \<or> c = CHR 0x09 \<or> c = CHR 0x0A \<or> c = CHR 0x0D)"

definition digitVal :: "char \<Rightarrow> nat option" where
  "digitVal c = (let n = (of_char c :: nat) in if 48 \<le> n \<and> n \<le> 57 then Some (n - 48) else None)"

definition hexVal :: "char \<Rightarrow> nat option" where
  "hexVal c = (let n = (of_char c :: nat) in
     if 48 \<le> n \<and> n \<le> 57 then Some (n - 48)
     else if 65 \<le> n \<and> n \<le> 70 then Some (n - 55)
     else if 97 \<le> n \<and> n \<le> 102 then Some (n - 87)
     else None)"

fun lexDigits :: "string \<Rightarrow> nat list \<times> string" where
  "lexDigits [] = ([], [])"
| "lexDigits (c # cs) =
     (case digitVal c of
        None \<Rightarrow> ([], c # cs)
      | Some d \<Rightarrow> (case lexDigits cs of (ds, r) \<Rightarrow> (d # ds, r)))"

definition fromDigits :: "nat list \<Rightarrow> nat" where
  "fromDigits ds = foldl (\<lambda>acc d. 10 * acc + d) 0 ds"

definition lexExponent :: "string \<Rightarrow> (int \<times> string) option" where
  "lexExponent cs =
     (case cs of
        [] \<Rightarrow> Some (0, cs)
      | c # cs1 \<Rightarrow>
          if c = CHR ''e'' \<or> c = CHR ''E'' then
            (let (neg, cs2) =
                   (case cs1 of
                      [] \<Rightarrow> (False, cs1)
                    | s # cs2 \<Rightarrow> if s = CHR ''-'' then (True, cs2)
                                else if s = CHR ''+'' then (False, cs2)
                                else (False, cs1))
             in case lexDigits cs2 of
                  ([], _) \<Rightarrow> None
                | (d # ds, r) \<Rightarrow>
                    Some (if neg then - int (fromDigits (d # ds)) else int (fromDigits (d # ds)), r))
          else Some (0, cs))"

definition lexFraction :: "string \<Rightarrow> (nat list \<times> string) option" where
  "lexFraction cs =
     (case cs of
        [] \<Rightarrow> Some ([], cs)
      | c # cs1 \<Rightarrow>
          if c = CHR ''.'' then
            (case lexDigits cs1 of
               ([], _) \<Rightarrow> None
             | (d # ds, r) \<Rightarrow> Some (d # ds, r))
          else Some ([], cs))"

definition lexNumber :: "string \<Rightarrow> ((int \<times> int) \<times> string) option" where
  "lexNumber cs =
     (let (neg, cs1) = (case cs of [] \<Rightarrow> (False, cs)
                        | c # cs' \<Rightarrow> if c = CHR ''-'' then (True, cs') else (False, cs))
      in case lexDigits cs1 of
           ([], _) \<Rightarrow> None
         | (d # ds, cs2) \<Rightarrow>
             if d = 0 \<and> ds \<noteq> [] then None
             else
               (case lexFraction cs2 of
                  None \<Rightarrow> None
                | Some (fs, cs3) \<Rightarrow>
                    (case lexExponent cs3 of
                       None \<Rightarrow> None
                     | Some (e, cs4) \<Rightarrow>
                         (let m = int (fromDigits (d # ds @ fs))
                          in Some ((if neg then - m else m, e - int (length fs)), cs4)))))"

definition hex4 :: "char \<Rightarrow> char \<Rightarrow> char \<Rightarrow> char \<Rightarrow> nat option" where
  "hex4 h1 h2 h3 h4 =
     (case (hexVal h1, hexVal h2, hexVal h3, hexVal h4) of
        (Some a, Some b, Some c, Some d) \<Rightarrow> Some (((a * 16 + b) * 16 + c) * 16 + d)
      | _ \<Rightarrow> None)"

definition escapeUnit :: "char \<Rightarrow> nat option" where
  "escapeUnit e =
     (if e = CHR 0x22 then Some 0x22
      else if e = CHR 0x5C then Some 0x5C
      else if e = CHR ''/'' then Some 0x2F
      else if e = CHR ''b'' then Some 0x08
      else if e = CHR ''f'' then Some 0x0C
      else if e = CHR ''n'' then Some 0x0A
      else if e = CHR ''r'' then Some 0x0D
      else if e = CHR ''t'' then Some 0x09
      else None)"

definition consUnit :: "nat \<Rightarrow> (nat list \<times> string) option \<Rightarrow> (nat list \<times> string) option" where
  "consUnit u res = (case res of None \<Rightarrow> None | Some (s, r) \<Rightarrow> Some (u # s, r))"

fun lexString :: "string \<Rightarrow> (nat list \<times> string) option" where
  "lexString [] = None"
| "lexString (c # cs) =
     (if c = CHR 0x22 then Some ([], cs)
      else if c = CHR 0x5C then
        (case cs of
           [] \<Rightarrow> None
         | e # cs1 \<Rightarrow>
             if e = CHR ''u'' then
               (case cs1 of
                  h1 # h2 # h3 # h4 # cs2 \<Rightarrow>
                    (case hex4 h1 h2 h3 h4 of
                       None \<Rightarrow> None
                     | Some u \<Rightarrow> consUnit u (lexString cs2))
                | _ \<Rightarrow> None)
             else
               (case escapeUnit e of
                  None \<Rightarrow> None
                | Some u \<Rightarrow> consUnit u (lexString cs1)))
      else if (of_char c :: nat) < 0x20 then None
      else consUnit (of_char c) (lexString cs))"

lemma lexDigits_length: "lexDigits cs = (ds, r) \<Longrightarrow> length r \<le> length cs"
  by (induction cs arbitrary: ds r) (auto split: option.splits prod.splits)

lemma lexDigits_length_strict: "lexDigits cs = (d # ds, r) \<Longrightarrow> length r < length cs"
  by (cases cs) (auto split: option.splits prod.splits dest: lexDigits_length)

lemma lexFraction_length: "lexFraction cs = Some (fs, r) \<Longrightarrow> length r \<le> length cs"
  unfolding lexFraction_def
  by (auto simp del: lexDigits.simps split: list.splits if_splits prod.splits
      dest!: lexDigits_length)

lemma lexExponent_length: "lexExponent cs = Some (e, r) \<Longrightarrow> length r \<le> length cs"
  unfolding lexExponent_def Let_def
  by (auto simp del: lexDigits.simps split: list.splits if_splits prod.splits
      dest!: lexDigits_length)

lemma lexNumber_length:
  assumes "lexNumber cs = Some (n, r)"
  shows "length r < length cs"
proof -
  obtain neg cs1 where sgn: "(case cs of [] \<Rightarrow> (False, cs)
      | c # cs' \<Rightarrow> if c = CHR ''-'' then (True, cs') else (False, cs)) = (neg, cs1)"
    by (cases "(case cs of [] \<Rightarrow> (False, cs)
      | c # cs' \<Rightarrow> if c = CHR ''-'' then (True, cs') else (False, cs))") auto
  then have l1: "length cs1 \<le> length cs"
    by (auto split: list.splits if_splits)
  from assms sgn obtain d ds cs2 fs cs3 e where
    dg: "lexDigits cs1 = (d # ds, cs2)" and fr: "lexFraction cs2 = Some (fs, cs3)"
    and ex: "lexExponent cs3 = Some (e, r)"
    unfolding lexNumber_def Let_def
    by (auto simp del: lexDigits.simps split: list.splits if_splits prod.splits option.splits)
  from lexDigits_length_strict [OF dg] lexFraction_length [OF fr] lexExponent_length [OF ex] l1
  show ?thesis by simp
qed

lemma consUnit_Some: "consUnit u res = Some (s, r) \<Longrightarrow> \<exists>s'. res = Some (s', r)"
  by (cases res) (auto simp: consUnit_def)

lemma lexString_length: "lexString cs = Some (s, r) \<Longrightarrow> length r < length cs"
proof (induction "length cs" arbitrary: cs s r rule: less_induct)
  case less
  show ?case
  proof (cases cs)
    case Nil
    with less.prems show ?thesis by simp
  next
    case (Cons c cs0)
    from less.prems Cons have "lexString (c # cs0) = Some (s, r)" by simp
    note A = this [unfolded lexString.simps(2)]
    show ?thesis
    proof (cases "c = CHR 0x22")
      case True
      with A Cons show ?thesis by (simp del: lexString.simps)
    next
      case notq: False
      show ?thesis
      proof (cases "c = CHR 0x5C")
        case False
        with notq A have "consUnit (of_char c) (lexString cs0) = Some (s, r)"
          by (simp del: lexString.simps split: if_splits)
        from consUnit_Some [OF this] obtain s' where rec: "lexString cs0 = Some (s', r)" ..
        have "length cs0 < length cs" using Cons by simp
        from less.hyps [OF this rec] Cons show ?thesis by simp
      next
        case True
        with A obtain e cs1 where cs: "cs0 = e # cs1"
          by (cases cs0) (auto simp del: lexString.simps)
        show ?thesis
        proof (cases "e = CHR ''u''")
          case False
          with True cs A obtain u where "consUnit u (lexString cs1) = Some (s, r)"
            by (auto simp del: lexString.simps split: option.splits)
          from consUnit_Some [OF this] obtain s' where rec: "lexString cs1 = Some (s', r)" ..
          have "length cs1 < length cs" using Cons cs by simp
          from less.hyps [OF this rec] Cons cs show ?thesis by simp
        next
          case isu: True
          from True cs isu A obtain h1 h2 h3 h4 cs2 where cs1: "cs1 = h1 # h2 # h3 # h4 # cs2"
            by (auto simp del: lexString.simps split: list.splits)
          with True cs isu A obtain u where "consUnit u (lexString cs2) = Some (s, r)"
            by (auto simp del: lexString.simps split: option.splits)
          from consUnit_Some [OF this] obtain s' where rec: "lexString cs2 = Some (s', r)" ..
          have "length cs2 < length cs" using Cons cs cs1 by simp
          from less.hyps [OF this rec] Cons cs cs1 show ?thesis by simp
        qed
      qed
    qed
  qed
qed

definition literalPrefix :: "string \<Rightarrow> string \<Rightarrow> bool" where
  "literalPrefix lit cs = (take (length lit) cs = lit)"

function lexTokens :: "string \<Rightarrow> token list option" where
  "lexTokens [] = Some []"
| "lexTokens (c # cs) =
     (if isWhitespace c then lexTokens cs
      else if c = CHR ''{'' then map_option (Cons TLBrace) (lexTokens cs)
      else if c = CHR ''}'' then map_option (Cons TRBrace) (lexTokens cs)
      else if c = CHR ''['' then map_option (Cons TLBracket) (lexTokens cs)
      else if c = CHR '']'' then map_option (Cons TRBracket) (lexTokens cs)
      else if c = CHR '':'' then map_option (Cons TColon) (lexTokens cs)
      else if c = CHR '','' then map_option (Cons TComma) (lexTokens cs)
      else if c = CHR 0x22 then
        (case lexString cs of
           None \<Rightarrow> None
         | Some (s, r) \<Rightarrow> map_option (Cons (TString s)) (lexTokens r))
      else if literalPrefix ''true'' (c # cs) then map_option (Cons TTrue) (lexTokens (drop 3 cs))
      else if literalPrefix ''false'' (c # cs) then map_option (Cons TFalse) (lexTokens (drop 4 cs))
      else if literalPrefix ''null'' (c # cs) then map_option (Cons TNull) (lexTokens (drop 3 cs))
      else
        (case lexNumber (c # cs) of
           None \<Rightarrow> None
         | Some ((m, e), r) \<Rightarrow> map_option (Cons (TNumber m e)) (lexTokens r)))"
  by pat_completeness auto
termination
proof (relation "measure length")
  show "wf (measure length)" by simp
qed (auto dest: lexString_length lexNumber_length)

datatype frame = InArray "json list" | InObject "(nat list \<times> json) list" "nat list"

datatype expect =
    Value
  | ArrayStart
  | ObjectStart
  | Key "(nat list \<times> json) list"
  | ColonAfter "(nat list \<times> json) list" "nat list"
  | After json

fun startValue :: "frame list \<Rightarrow> token \<Rightarrow> (expect \<times> frame list) option" where
  "startValue st TLBracket = Some (ArrayStart, st)"
| "startValue st TLBrace = Some (ObjectStart, st)"
| "startValue st TTrue = Some (After (JBool True), st)"
| "startValue st TFalse = Some (After (JBool False), st)"
| "startValue st TNull = Some (After JNull, st)"
| "startValue st (TString s) = Some (After (JString s), st)"
| "startValue st (TNumber m e) = Some (After (JNumber m e), st)"
| "startValue st TRBrace = None"
| "startValue st TRBracket = None"
| "startValue st TColon = None"
| "startValue st TComma = None"

fun parseStep :: "expect \<Rightarrow> frame list \<Rightarrow> token \<Rightarrow> (expect \<times> frame list) option" where
  "parseStep Value st t = startValue st t"
| "parseStep ArrayStart st t =
     (if t = TRBracket then Some (After (JArray []), st) else startValue (InArray [] # st) t)"
| "parseStep ObjectStart st t =
     (case t of
        TRBrace \<Rightarrow> Some (After (JObject []), st)
      | TString k \<Rightarrow> Some (ColonAfter [] k, st)
      | _ \<Rightarrow> None)"
| "parseStep (Key acc) st t =
     (case t of TString k \<Rightarrow> Some (ColonAfter acc k, st) | _ \<Rightarrow> None)"
| "parseStep (ColonAfter acc k) st t =
     (if t = TColon then Some (Value, InObject acc k # st) else None)"
| "parseStep (After v) [] t = None"
| "parseStep (After v) (InArray acc # st) t =
     (case t of
        TComma \<Rightarrow> Some (Value, InArray (v # acc) # st)
      | TRBracket \<Rightarrow> Some (After (JArray (rev (v # acc))), st)
      | _ \<Rightarrow> None)"
| "parseStep (After v) (InObject acc k # st) t =
     (case t of
        TComma \<Rightarrow> Some (Key ((k, v) # acc), st)
      | TRBrace \<Rightarrow> Some (After (JObject (rev ((k, v) # acc))), st)
      | _ \<Rightarrow> None)"

fun parseTokens :: "expect \<Rightarrow> frame list \<Rightarrow> token list \<Rightarrow> json option" where
  "parseTokens e st [] = (case (e, st) of (After v, []) \<Rightarrow> Some v | _ \<Rightarrow> None)"
| "parseTokens e st (t # ts) =
     (case parseStep e st t of
        None \<Rightarrow> None
      | Some (e', st') \<Rightarrow> parseTokens e' st' ts)"

definition JSON_parse :: "string \<Rightarrow> jsError + json" where
  "JSON_parse text =
     (case lexTokens text of
        None \<Rightarrow> Inl SyntaxError
      | Some ts \<Rightarrow>
          (case parseTokens Value [] ts of
             None \<Rightarrow> Inl SyntaxError
           | Some v \<Rightarrow> Inr v))"

subsection \<open>Props: the printer and its status\<close>

text \<open>
  The declarations of \<^verbatim>\<open>Printer\<close> and \<^verbatim>\<open>PrinterStatus\<close> live in the API client, outside
  this component. The component reads \<^verbatim>\<open>printer.id\<close>, \<^verbatim>\<open>printer.nozzle_count\<close> and four
  fields of the status, each behind \<^verbatim>\<open>?.\<close> and most behind \<^verbatim>\<open>??\<close>, so every field it reads
  may be missing here. The status itself is \<^verbatim>\<open>PrinterStatus | null | undefined\<close>.
\<close>

record printer =
  printer_id :: nat
  nozzle_count :: "int option"

record printerStatus =
  connected :: "bool option"
  state :: "string option"
  stg_cur :: "int option"
  stg_cur_name :: "string option"

definition isDualNozzle :: "printer \<Rightarrow> bool" where
  "isDualNozzle p = (nozzle_count p = Some 2)"

definition isConnected :: "printerStatus option \<Rightarrow> bool" where
  "isConnected s =
     (case s of
        None \<Rightarrow> False
      | Some x \<Rightarrow> (case connected x of None \<Rightarrow> False | Some b \<Rightarrow> b))"

definition currentStage :: "printerStatus option \<Rightarrow> int" where
  "currentStage s =
     (case s of
        None \<Rightarrow> - 1
      | Some x \<Rightarrow> (case stg_cur x of None \<Rightarrow> - 1 | Some n \<Rightarrow> n))"

definition printerState :: "printerStatus option \<Rightarrow> string option" where
  "printerState s = (case s of None \<Rightarrow> None | Some x \<Rightarrow> state x)"

subsection \<open>The stage classifier\<close>

definition CALIBRATION_STAGES :: "int list" where
  "CALIBRATION_STAGES = [1, 3, 13, 25, 39, 40, 47, 48, 50]"

text \<open>
  \<^verbatim>\<open>CALIBRATION_STAGES.has(currentStage) && printerState === 'RUNNING'\<close>, as a function of
  the two values it reads, and on a status.
\<close>

definition isCalibrating :: "int \<Rightarrow> string option \<Rightarrow> bool" where
  "isCalibrating stage pstate = (stage \<in> set CALIBRATION_STAGES \<and> pstate = Some ''RUNNING'')"

definition calibratingNow :: "printerStatus option \<Rightarrow> bool" where
  "calibratingNow s = isCalibrating (currentStage s) (printerState s)"

subsection \<open>The selection and its stored record\<close>

text \<open>
  Five cells hold the selection. A cell holds a boolean once its checkbox has been
  clicked, after a reset, and whenever the stored record was written from booleans; it
  holds whatever value the stored record gave it otherwise (lines 108 to 112 keep the
  value, whatever its type). The same five names carry the booleans that the conditions
  of the component read from the cells.
\<close>

record 'a selection =
  bedLeveling :: 'a
  vibration :: 'a
  motorNoise :: 'a
  nozzleOffset :: 'a
  highTempHeatbed :: 'a

definition booleans :: "bool selection \<Rightarrow> json selection" where
  "booleans sel =
     \<lparr>bedLeveling = JBool (bedLeveling sel), vibration = JBool (vibration sel),
      motorNoise = JBool (motorNoise sel), nozzleOffset = JBool (nozzleOffset sel),
      highTempHeatbed = JBool (highTempHeatbed sel)\<rparr>"

definition defaultOptions :: "bool \<Rightarrow> json selection" where
  "defaultOptions dual =
     \<lparr>bedLeveling = JBool True, vibration = JBool True, motorNoise = JBool True,
      nozzleOffset = JBool dual, highTempHeatbed = JBool False\<rparr>"

fun showNat :: "nat \<Rightarrow> string" where
  "showNat n =
     (if n < 10 then [char_of (48 + n)]
      else showNat (n div 10) @ [char_of (48 + n mod 10)])"

declare showNat.simps [simp del]

definition storageKey :: "printer \<Rightarrow> string" where
  "storageKey p = ''calibration_options_'' @ showNat (printer_id p)"

text \<open>
  A number is falsy when its double is zero: when the mantissa is zero or the value is at
  most \<open>2\<^sup>-\<^sup>1\<^sup>0\<^sup>7\<^sup>5\<close>, half of the smallest positive double. Its double is infinite
  when the value is at least \<open>2\<^sup>1\<^sup>0\<^sup>2\<^sup>4 - 2\<^sup>9\<^sup>7\<^sup>0\<close>, half way from the largest double
  to \<open>2\<^sup>1\<^sup>0\<^sup>2\<^sup>4\<close>.
\<close>

definition roundsToZero :: "int \<Rightarrow> int \<Rightarrow> bool" where
  "roundsToZero m e = (m = 0 \<or> (e < 0 \<and> \<bar>m\<bar> * 2 ^ 1075 \<le> 10 ^ nat (- e)))"

definition roundsToInfinity :: "int \<Rightarrow> int \<Rightarrow> bool" where
  "roundsToInfinity m e =
     (if 0 \<le> e then 2 ^ 1024 - 2 ^ 970 \<le> \<bar>m\<bar> * 10 ^ nat e
      else (2 ^ 1024 - 2 ^ 970) * 10 ^ nat (- e) \<le> \<bar>m\<bar>)"

fun truthy :: "json \<Rightarrow> bool" where
  "truthy JNull = False"
| "truthy (JBool b) = b"
| "truthy (JNumber m e) = (\<not> roundsToZero m e)"
| "truthy (JString s) = (s \<noteq> [])"
| "truthy (JArray xs) = True"
| "truthy (JObject ms) = True"

text \<open>What the conditions of the component (\<^verbatim>\<open>if\<close>, \<^verbatim>\<open>||\<close>, \<^verbatim>\<open>&&\<close>, \<^verbatim>\<open>!\<close>) read from the cells.\<close>

definition truthiness :: "json selection \<Rightarrow> bool selection" where
  "truthiness cells =
     \<lparr>bedLeveling = truthy (bedLeveling cells), vibration = truthy (vibration cells),
      motorNoise = truthy (motorNoise cells), nozzleOffset = truthy (nozzleOffset cells),
      highTempHeatbed = truthy (highTempHeatbed cells)\<rparr>"

subsubsection \<open>Writing the record\<close>

text \<open>
  \<^verbatim>\<open>JSON.stringify\<close> of the object of the five cells, in the order of the source. When the
  cells hold booleans the text is written out. The text of any other value (the shortest
  decimal of a double, the order of the keys of an object) is the platform's; such a
  record is kept as the cells it was written from, and reading it back gives the value
  that \<^verbatim>\<open>JSON.parse\<close> gives for the text of \<^verbatim>\<open>JSON.stringify\<close>: the value itself, but
  \<^verbatim>\<open>null\<close> for a number whose double is infinite.
\<close>

datatype stored = Text string | Serialized "json selection"

definition showBool :: "bool \<Rightarrow> string" where
  "showBool b = (if b then ''true'' else ''false'')"

definition recordText :: "bool selection \<Rightarrow> string" where
  "recordText sel =
     ''{\"bedLeveling\":'' @ showBool (bedLeveling sel)
     @ '',\"vibration\":'' @ showBool (vibration sel)
     @ '',\"motorNoise\":'' @ showBool (motorNoise sel)
     @ '',\"nozzleOffset\":'' @ showBool (nozzleOffset sel)
     @ '',\"highTempHeatbed\":'' @ showBool (highTempHeatbed sel) @ ''}''"

fun asBoolean :: "json \<Rightarrow> bool option" where
  "asBoolean (JBool b) = Some b"
| "asBoolean v = None"

definition asBooleans :: "json selection \<Rightarrow> bool selection option" where
  "asBooleans cells =
     (case asBoolean (bedLeveling cells) of None \<Rightarrow> None | Some a \<Rightarrow>
      case asBoolean (vibration cells) of None \<Rightarrow> None | Some b \<Rightarrow>
      case asBoolean (motorNoise cells) of None \<Rightarrow> None | Some c \<Rightarrow>
      case asBoolean (nozzleOffset cells) of None \<Rightarrow> None | Some d \<Rightarrow>
      case asBoolean (highTempHeatbed cells) of None \<Rightarrow> None | Some e \<Rightarrow>
        Some \<lparr>bedLeveling = a, vibration = b, motorNoise = c, nozzleOffset = d,
              highTempHeatbed = e\<rparr>)"

definition JSON_stringify :: "json selection \<Rightarrow> stored" where
  "JSON_stringify cells =
     (case asBooleans cells of Some sel \<Rightarrow> Text (recordText sel) | None \<Rightarrow> Serialized cells)"

primrec readBack :: "json \<Rightarrow> json" where
  "readBack JNull = JNull"
| "readBack (JBool b) = JBool b"
| "readBack (JNumber m e) = (if roundsToInfinity m e then JNull else JNumber m e)"
| "readBack (JString s) = JString s"
| "readBack (JArray xs) = JArray (map readBack xs)"
| "readBack (JObject ms) = JObject (map (map_prod id readBack) ms)"

definition parseStored :: "stored \<Rightarrow> jsError + json" where
  "parseStored item =
     (case item of
        Text t \<Rightarrow> JSON_parse t
      | Serialized cells \<Rightarrow>
          Inr (JObject
            [(map of_char ''bedLeveling'', readBack (bedLeveling cells)),
             (map of_char ''vibration'', readBack (vibration cells)),
             (map of_char ''motorNoise'', readBack (motorNoise cells)),
             (map of_char ''nozzleOffset'', readBack (nozzleOffset cells)),
             (map of_char ''highTempHeatbed'', readBack (highTempHeatbed cells))]))"

text \<open>The token of a boolean of the text.\<close>

definition boolToken :: "bool \<Rightarrow> token" where
  "boolToken b = (if b then TTrue else TFalse)"

subsubsection \<open>Reading the record\<close>

text \<open>
  \<^verbatim>\<open>savedOptions ? JSON.parse(savedOptions) : null\<close>: a missing item and the empty text
  are falsy and give \<^verbatim>\<open>null\<close>; any other text is parsed, and a text that is not JSON
  throws. Nothing catches the exception.
\<close>

definition parsedOptions :: "stored option \<Rightarrow> jsError + json" where
  "parsedOptions savedOptions =
     (case savedOptions of
        None \<Rightarrow> Inr JNull
      | Some item \<Rightarrow> if item = Text [] then Inr JNull else parseStored item)"

text \<open>
  \<^verbatim>\<open>parsedOptions?.name\<close> for the five names the component reads: \<^verbatim>\<open>undefined\<close>
  (\<open>None\<close>) on \<^verbatim>\<open>null\<close>, on a value that is not an object, and on an object without
  the member; the last member of the name otherwise.
\<close>

definition optionalProperty :: "json \<Rightarrow> string \<Rightarrow> json option" where
  "optionalProperty v key =
     (case v of
        JObject members \<Rightarrow> map_of (rev members) (map of_char key)
      | _ \<Rightarrow> None)"

text \<open>\<^verbatim>\<open>value ?? fallback\<close>: the fallback for \<^verbatim>\<open>undefined\<close> and \<^verbatim>\<open>null\<close>, the value otherwise.\<close>

definition nullishOr :: "json option \<Rightarrow> json \<Rightarrow> json" where
  "nullishOr v fallback =
     (case v of None \<Rightarrow> fallback | Some JNull \<Rightarrow> fallback | Some x \<Rightarrow> x)"

definition initialOptions :: "json \<Rightarrow> bool \<Rightarrow> json selection" where
  "initialOptions parsed dual =
     \<lparr>bedLeveling = nullishOr (optionalProperty parsed ''bedLeveling'') (JBool True),
      vibration = nullishOr (optionalProperty parsed ''vibration'') (JBool True),
      motorNoise = nullishOr (optionalProperty parsed ''motorNoise'') (JBool True),
      nozzleOffset = nullishOr (optionalProperty parsed ''nozzleOffset'') (JBool dual),
      highTempHeatbed =
        nullishOr (optionalProperty parsed ''highTempHeatbed'') (JBool False)\<rparr>"

text \<open>
  An option as the record gives it, in the words of the specification: the default when the
  record has no member of the name, or when the last member of the name is null; the
  value of the last member of the name otherwise.
\<close>

definition optionOfRecord :: "(nat list \<times> json) list \<Rightarrow> string \<Rightarrow> json \<Rightarrow> json" where
  "optionOfRecord members key fallback =
     (case filter (\<lambda>kv. fst kv = map of_char key) members of
        [] \<Rightarrow> fallback
      | kv # kvs \<Rightarrow>
          (case snd (last (kv # kvs)) of JNull \<Rightarrow> fallback | x \<Rightarrow> x))"

subsection \<open>The expected flow and the current step\<close>

record flowStep =
  name :: string
  stages :: "int list"

definition expectedFlow :: "bool selection \<Rightarrow> bool \<Rightarrow> flowStep list" where
  "expectedFlow sel dual =
     [\<lparr>name = ''Homing toolhead'', stages = [13]\<rparr>]
     @ (if bedLeveling sel \<or> highTempHeatbed sel
        then [\<lparr>name = ''Cooling heatbed'', stages = [50]\<rparr>] else [])
     @ (if bedLeveling sel
        then [\<lparr>name = ''Auto bed leveling - phase 1'', stages = [1, 47]\<rparr>] else [])
     @ (if motorNoise sel
        then [\<lparr>name = ''Motor noise cancellation'', stages = [25]\<rparr>] else [])
     @ (if vibration sel
        then [\<lparr>name = ''Vibration compensation'', stages = [3]\<rparr>] else [])
     @ (if bedLeveling sel
        then [\<lparr>name = ''Auto bed leveling - phase 2'', stages = [48]\<rparr>] else [])
     @ (if dual \<and> nozzleOffset sel
        then [\<lparr>name = ''Nozzle offset calibration'', stages = [39]\<rparr>] else [])
     @ (if highTempHeatbed sel
        then [\<lparr>name = ''High-temp heatbed calibration'', stages = [40]\<rparr>] else [])"

text \<open>\<^verbatim>\<open>Array.prototype.findIndex\<close>: the first index whose element passes, or \<open>-1\<close>.\<close>

fun findIndexFrom :: "int \<Rightarrow> ('a \<Rightarrow> bool) \<Rightarrow> 'a list \<Rightarrow> int" where
  "findIndexFrom i P [] = - 1"
| "findIndexFrom i P (x # xs) = (if P x then i else findIndexFrom (i + 1) P xs)"

definition findIndex :: "('a \<Rightarrow> bool) \<Rightarrow> 'a list \<Rightarrow> int" where
  "findIndex P xs = findIndexFrom 0 P xs"

definition stepIndex :: "flowStep list \<Rightarrow> int \<Rightarrow> int" where
  "stepIndex flow stage = findIndex (\<lambda>step. stage \<in> set (stages step)) flow"

definition hasSelection :: "bool selection \<Rightarrow> bool" where
  "hasSelection sel =
     (bedLeveling sel \<or> vibration sel \<or> motorNoise sel \<or> nozzleOffset sel \<or> highTempHeatbed sel)"

subsection \<open>The progress cells and the four effects\<close>

record progress =
  initialized :: bool
  calibrationStarted :: bool
  seenCalibrating :: bool
  calibrationCompleted :: bool

text \<open>
  An effect reads the values of the render it belongs to (\<open>r\<close>, and \<open>c\<close> for
  \<^verbatim>\<open>isCalibrating\<close>) and queues updates of the cells; the updates of all effects of one
  render are applied in the order of the source (\<open>q\<close> is the queue's result so far).
\<close>

definition effectInitialize :: "bool \<Rightarrow> progress \<Rightarrow> progress \<Rightarrow> progress" where
  "effectInitialize c r q =
     (if \<not> initialized r \<and> c
      then q\<lparr>seenCalibrating := True, calibrationStarted := True, initialized := True\<rparr>
      else if \<not> initialized r \<and> \<not> c then q\<lparr>initialized := True\<rparr>
      else q)"

definition effectSeen :: "bool \<Rightarrow> progress \<Rightarrow> progress \<Rightarrow> progress" where
  "effectSeen c r q =
     (if c \<and> \<not> seenCalibrating r
      then q\<lparr>seenCalibrating := True, calibrationCompleted := False\<rparr>
      else q)"

definition effectStarted :: "bool \<Rightarrow> progress \<Rightarrow> progress \<Rightarrow> progress" where
  "effectStarted c r q =
     (if c \<and> \<not> calibrationStarted r then q\<lparr>calibrationStarted := True\<rparr> else q)"

definition effectCompleted :: "bool \<Rightarrow> progress \<Rightarrow> progress \<Rightarrow> progress" where
  "effectCompleted c r q =
     (if seenCalibrating r \<and> \<not> c \<and> \<not> calibrationCompleted r
      then q\<lparr>calibrationCompleted := True\<rparr>
      else q)"

definition effects :: "bool \<Rightarrow> progress \<Rightarrow> progress" where
  "effects c r =
     effectCompleted c r (effectStarted c r (effectSeen c r (effectInitialize c r r)))"

lemma effects_idem: "effects c (effects c r) = effects c r"
  by (cases r; cases c)
     (auto simp: effects_def effectInitialize_def effectSeen_def effectStarted_def
        effectCompleted_def)

text \<open>
  React renders again while the effects of the last render have changed a cell. Each
  effect reads only the values of its dependency array, and each effect that fires
  changes one of them, so running every effect after every render is the same as running
  those whose dependencies changed.
\<close>

function settle :: "bool \<Rightarrow> progress \<Rightarrow> progress" where
  "settle c r = (if effects c r = r then r else settle c (effects c r))"
  by pat_completeness auto
termination
  by (relation "measure (\<lambda>(c, r). if effects c r = r then 0 else 1)")
     (auto simp: effects_idem)

declare settle.simps [simp del]

lemma settle_effects: "settle c r = effects c r"
  by (subst settle.simps, subst settle.simps) (simp add: effects_idem)

subsection \<open>The component: props, cells, the store and the requests sent\<close>

text \<open>
  Between two renders the screen and the handlers keep what the last render gave them.
  A change of a cell made in a click (a checkbox, the reset) is rendered before the next
  event, and a new status is a render itself; so the status, the selection and the
  progress cells on the screen are those of the state. The state of the mutation is not
  a cell of the component: \<^verbatim>\<open>mutate()\<close> changes it at once in the mutation's observer,
  and the component learns of it in a render that is scheduled for later. The model
  therefore keeps both: \<open>mutation\<close>, the state in the observer, and
  \<open>calibrationMutation\<close>, the object of that name as the last render had it, which is
  what \<^verbatim>\<open>canStart\<close> and the error message read.

  A click on the start button while a request is in flight (possible before the render
  that shows it) makes the observer follow the new request; the earlier one stays in
  flight, and its \<^verbatim>\<open>onSuccess\<close> still runs when it succeeds, with the selection it closed
  over. \<open>superseded\<close> lists those earlier requests.
\<close>

datatype mutationStatus = MIdle | MPending | MSuccess | MError "string option"

record modal =
  printer :: printer
  status :: "printerStatus option"
  flags :: progress
  options :: "json selection"
  mutation :: mutationStatus
  calibrationMutation :: mutationStatus
  superseded :: "json selection list"
  localStorage :: "string \<rightharpoonup> stored"
  sent :: "(nat \<times> json selection) list"

definition canStart :: "modal \<Rightarrow> bool" where
  "canStart m =
     (isConnected (status m) \<and> hasSelection (truthiness (options m))
      \<and> calibrationMutation m \<noteq> MPending
      \<and> \<not> calibratingNow (status m) \<and> \<not> calibrationCompleted (flags m))"

definition currentStepIndex :: "modal \<Rightarrow> int" where
  "currentStepIndex m =
     stepIndex (expectedFlow (truthiness (options m)) (isDualNozzle (printer m)))
       (currentStage (status m))"

text \<open>The two marks of a step of the timeline, for the step at \<open>index\<close>.\<close>

definition isActive :: "modal \<Rightarrow> flowStep \<Rightarrow> bool" where
  "isActive m step =
     (calibrationStarted (flags m) \<and> \<not> calibrationCompleted (flags m)
      \<and> currentStage (status m) \<in> set (stages step))"

definition isComplete :: "modal \<Rightarrow> int \<Rightarrow> bool" where
  "isComplete m index =
     (calibrationCompleted (flags m)
      \<or> (calibrationStarted (flags m) \<and> currentStepIndex m > index))"


subsection \<open>Event handlers\<close>

datatype checkbox =
  BedLevelingBox | VibrationBox | MotorNoiseBox | NozzleOffsetBox | HighTempHeatbedBox

fun checked :: "checkbox \<Rightarrow> 'a selection \<Rightarrow> 'a" where
  "checked BedLevelingBox sel = bedLeveling sel"
| "checked VibrationBox sel = vibration sel"
| "checked MotorNoiseBox sel = motorNoise sel"
| "checked NozzleOffsetBox sel = nozzleOffset sel"
| "checked HighTempHeatbedBox sel = highTempHeatbed sel"

fun onChange :: "checkbox \<Rightarrow> 'a \<Rightarrow> 'a selection \<Rightarrow> 'a selection" where
  "onChange BedLevelingBox v sel = sel\<lparr>bedLeveling := v\<rparr>"
| "onChange VibrationBox v sel = sel\<lparr>vibration := v\<rparr>"
| "onChange MotorNoiseBox v sel = sel\<lparr>motorNoise := v\<rparr>"
| "onChange NozzleOffsetBox v sel = sel\<lparr>nozzleOffset := v\<rparr>"
| "onChange HighTempHeatbedBox v sel = sel\<lparr>highTempHeatbed := v\<rparr>"

text \<open>
  Every checkbox has \<^verbatim>\<open>disabled={!isConnected || isCalibrating}\<close>; the nozzle offset
  checkbox exists on a dual nozzle printer only. A click calls \<^verbatim>\<open>onChange(!checked)\<close>,
  which puts a boolean in the cell.
\<close>

definition checkboxDisabled :: "modal \<Rightarrow> bool" where
  "checkboxDisabled m = (\<not> isConnected (status m) \<or> calibratingNow (status m))"

fun checkboxShown :: "modal \<Rightarrow> checkbox \<Rightarrow> bool" where
  "checkboxShown m NozzleOffsetBox = isDualNozzle (printer m)"
| "checkboxShown m box = True"

definition clickCheckbox :: "checkbox \<Rightarrow> modal \<Rightarrow> modal" where
  "clickCheckbox box m =
     (if checkboxShown m box \<and> \<not> checkboxDisabled m
      then m\<lparr>options :=
             onChange box (JBool (\<not> truthy (checked box (options m)))) (options m)\<rparr>
      else m)"

text \<open>
  \<^verbatim>\<open>calibrationMutation.mutate()\<close> sends the request with the cells as they are and marks
  the mutation pending in the observer; a request still in flight is superseded. The
  handler of the start button checks nothing: the button is not rendered once the
  calibration has completed and carries \<^verbatim>\<open>disabled={!canStart}\<close> of the last render.
\<close>

definition mutate :: "modal \<Rightarrow> modal" where
  "mutate m =
     m\<lparr>mutation := MPending,
       superseded := (if mutation m = MPending then superseded m @ [options m]
                      else superseded m),
       sent := sent m @ [(printer_id (printer m), options m)]\<rparr>"

definition clickStart :: "modal \<Rightarrow> modal" where
  "clickStart m = (if \<not> calibrationCompleted (flags m) \<and> canStart m then mutate m else m)"

text \<open>
  \<^verbatim>\<open>onSuccess\<close> stores the selection it closed over and sets \<^verbatim>\<open>calibrationStarted\<close>. The
  request in flight that the observer follows closes over the cells as they are.
\<close>

definition onSuccess :: "json selection \<Rightarrow> modal \<Rightarrow> modal" where
  "onSuccess cells m =
     m\<lparr>localStorage := (localStorage m)(storageKey (printer m) \<mapsto> JSON_stringify cells),
       flags := (flags m)\<lparr>calibrationStarted := True\<rparr>\<rparr>"

definition startSucceeded :: "modal \<Rightarrow> modal" where
  "startSucceeded m =
     (if mutation m = MPending then onSuccess (options m) (m\<lparr>mutation := MSuccess\<rparr>) else m)"

text \<open>The mutation has no \<^verbatim>\<open>onError\<close> and no retry: a failure only becomes its state.\<close>

definition startFailed :: "string option \<Rightarrow> modal \<Rightarrow> modal" where
  "startFailed msg m = (if mutation m = MPending then m\<lparr>mutation := MError msg\<rparr> else m)"

text \<open>The answers of a superseded request, the \<open>i\<close>-th of those in flight.\<close>

definition dropAt :: "nat \<Rightarrow> 'a list \<Rightarrow> 'a list" where
  "dropAt i xs = take i xs @ drop (Suc i) xs"

definition olderSucceeded :: "nat \<Rightarrow> modal \<Rightarrow> modal" where
  "olderSucceeded i m =
     (if i < length (superseded m)
      then onSuccess (superseded m ! i) (m\<lparr>superseded := dropAt i (superseded m)\<rparr>)
      else m)"

definition olderFailed :: "nat \<Rightarrow> modal \<Rightarrow> modal" where
  "olderFailed i m =
     (if i < length (superseded m) then m\<lparr>superseded := dropAt i (superseded m)\<rparr> else m)"

definition resetCalibration :: "modal \<Rightarrow> modal" where
  "resetCalibration m =
     m\<lparr>localStorage := (localStorage m)(storageKey (printer m) := None),
       flags := (flags m)\<lparr>calibrationStarted := False, seenCalibrating := False,
                           calibrationCompleted := False\<rparr>,
       options := defaultOptions (isDualNozzle (printer m))\<rparr>"

text \<open>The button \<^verbatim>\<open>New Calibration\<close> is rendered once the calibration has completed.\<close>

definition clickNewCalibration :: "modal \<Rightarrow> modal" where
  "clickNewCalibration m = (if calibrationCompleted (flags m) then resetCalibration m else m)"

datatype event =
    StatusUpdate "printerStatus option"
  | ClickCheckbox checkbox
  | ClickStart
  | StartSucceeded
  | StartFailed "string option"
  | OlderSucceeded nat
  | OlderFailed nat
  | ClickNewCalibration
  | Rerender

fun handle :: "event \<Rightarrow> modal \<Rightarrow> modal" where
  "handle (StatusUpdate s) m = m\<lparr>status := s\<rparr>"
| "handle (ClickCheckbox box) m = clickCheckbox box m"
| "handle ClickStart m = clickStart m"
| "handle StartSucceeded m = startSucceeded m"
| "handle (StartFailed msg) m = startFailed msg m"
| "handle (OlderSucceeded i) m = olderSucceeded i m"
| "handle (OlderFailed i) m = olderFailed i m"
| "handle ClickNewCalibration m = clickNewCalibration m"
| "handle Rerender m = m"

subsection \<open>Rendering\<close>

text \<open>
  Every render runs the body of the component, which parses the stored record again and
  reads the state of the mutation, and then the effects, until no cell changes. A stored
  record that is not JSON makes the render throw.
\<close>

definition savedOptions :: "modal \<Rightarrow> stored option" where
  "savedOptions m = localStorage m (storageKey (printer m))"

definition render :: "modal \<Rightarrow> jsError + modal" where
  "render m =
     (case parsedOptions (savedOptions m) of
        Inl err \<Rightarrow> Inl err
      | Inr parsed \<Rightarrow>
          Inr (m\<lparr>flags := settle (calibratingNow (status m)) (flags m),
                 calibrationMutation := mutation m\<rparr>))"

text \<open>
  A new status renders. A click that changes a cell of the component (a checkbox that is
  enabled, the reset) renders before the next event. The start click and the answers of
  the requests change the observer, or a cell outside a click: the render they ask for
  comes later, as the event \<open>Rerender\<close>.
\<close>

fun rerenders :: "event \<Rightarrow> modal \<Rightarrow> bool" where
  "rerenders (StatusUpdate s) m = True"
| "rerenders (ClickCheckbox box) m = (checkboxShown m box \<and> \<not> checkboxDisabled m)"
| "rerenders ClickNewCalibration m = calibrationCompleted (flags m)"
| "rerenders Rerender m = True"
| "rerenders ev m = False"

definition step :: "event \<Rightarrow> modal \<Rightarrow> jsError + modal" where
  "step ev m = (if rerenders ev m then render (handle ev m) else Inr (handle ev m))"

fun run :: "event list \<Rightarrow> modal \<Rightarrow> jsError + modal" where
  "run [] m = Inr m"
| "run (ev # evs) m = (case step ev m of Inl err \<Rightarrow> Inl err | Inr m' \<Rightarrow> run evs m')"

text \<open>
  Mounting: the cells take the initial values of their \<^verbatim>\<open>useState\<close>, the selection from
  the stored record or the defaults, and the first render follows.
\<close>

definition initialModal ::
  "printer \<Rightarrow> printerStatus option \<Rightarrow> json selection \<Rightarrow> (string \<rightharpoonup> stored) \<Rightarrow> modal" where
  "initialModal p s cells store =
     \<lparr>printer = p, status = s,
      flags = \<lparr>initialized = False, calibrationStarted = False,
               seenCalibrating = False, calibrationCompleted = False\<rparr>,
      options = cells, mutation = MIdle, calibrationMutation = MIdle, superseded = [],
      localStorage = store, sent = []\<rparr>"

definition mount :: "printer \<Rightarrow> printerStatus option \<Rightarrow> (string \<rightharpoonup> stored) \<Rightarrow> jsError + modal" where
  "mount p s store =
     (case parsedOptions (store (storageKey p)) of
        Inl err \<Rightarrow> Inl err
      | Inr parsed \<Rightarrow> render (initialModal p s (initialOptions parsed (isDualNozzle p)) store))"

text \<open>The stored record can be read: it is missing, empty or JSON.\<close>

definition storedRecordOk :: "modal \<Rightarrow> bool" where
  "storedRecordOk m = (case parsedOptions (savedOptions m) of Inl err \<Rightarrow> False | Inr v \<Rightarrow> True)"

subsection \<open>Fixtures of the scenarios\<close>

definition singleNozzle :: printer where
  "singleNozzle = \<lparr>printer_id = 1, nozzle_count = Some 1\<rparr>"

definition snapshot :: "string \<Rightarrow> int \<Rightarrow> printerStatus option" where
  "snapshot pstate stage =
     Some \<lparr>connected = Some True, state = Some pstate, stg_cur = Some stage,
           stg_cur_name = None\<rparr>"

definition scenarioA :: "bool selection" where
  "scenarioA =
     \<lparr>bedLeveling = True, vibration = False, motorNoise = False,
      nozzleOffset = False, highTempHeatbed = False\<rparr>"

definition nothingSelected :: "bool selection" where
  "nothingSelected =
     \<lparr>bedLeveling = False, vibration = False, motorNoise = False,
      nozzleOffset = False, highTempHeatbed = False\<rparr>"

text \<open>The cells of a render that left them as they are.\<close>

definition atRest :: progress where
  "atRest = \<lparr>initialized = True, calibrationStarted = False,
             seenCalibrating = False, calibrationCompleted = False\<rparr>"

text \<open>The overlay of a single nozzle printer with Scenario A's selection, running at stage 13.\<close>

definition running13 :: modal where
  "running13 =
     (initialModal singleNozzle (snapshot ''RUNNING'' 13) (booleans scenarioA) Map.empty)
       \<lparr>flags := \<lparr>initialized = True, calibrationStarted = True,
                  seenCalibrating = True, calibrationCompleted = False\<rparr>\<rparr>"

text \<open>An idle, connected printer with the default selection, mounted and at rest.\<close>

definition startIdle :: modal where
  "startIdle =
     (initialModal singleNozzle (snapshot ''IDLE'' 255) (defaultOptions False) Map.empty)
       \<lparr>flags := atRest\<rparr>"

text \<open>An idle, connected printer with no option selected.\<close>

definition idleNothingSelected :: modal where
  "idleNothingSelected =
     (initialModal singleNozzle (snapshot ''IDLE'' 255) (booleans nothingSelected) Map.empty)
       \<lparr>flags := atRest\<rparr>"

text \<open>The same printer with the start request in flight, and rendered so.\<close>

definition startPending :: modal where
  "startPending =
     startIdle\<lparr>mutation := MPending, calibrationMutation := MPending,
               sent := [(1, defaultOptions False)]\<rparr>"

text \<open>
  After an accepted and successful start request, before the printer reports a
  calibration stage: started, not completed, connected, not calibrating.
\<close>

definition startedNotRunning :: modal where
  "startedNotRunning =
     startIdle\<lparr>flags := atRest\<lparr>calibrationStarted := True\<rparr>,
               mutation := MSuccess, calibrationMutation := MSuccess,
               localStorage := [storageKey singleNozzle \<mapsto> JSON_stringify (defaultOptions False)],
               sent := [(1, defaultOptions False)]\<rparr>"

section \<open>Properties\<close>

subsection \<open>The model of JSON.parse on examples\<close>

lemma JSON_parse_examples:
  "JSON_parse ''[0.5e-3, 1.0E+2, -0, \"a b\"]''
     = Inr (JArray [JNumber 5 (- 4), JNumber 10 1, JNumber 0 0, JString [97, 32, 98]])"
  "JSON_parse '' {\"a\" : [true, false, null], \"a\" : {}} ''
     = Inr (JObject [([97], JArray [JBool True, JBool False, JNull]), ([97], JObject [])])"
  "JSON_parse ''01'' = Inl SyntaxError"
  "JSON_parse ''[1,]'' = Inl SyntaxError"
  "JSON_parse ''{\"a\":1,}'' = Inl SyntaxError"
  "JSON_parse ''undefined'' = Inl SyntaxError"
  "JSON_parse ''[object Object]'' = Inl SyntaxError"
  "JSON_parse ''true false'' = Inl SyntaxError"
  by code_simp+

lemma truthy_examples:
  "truthy (JNumber 0 5) = False"
  "truthy (JNumber 5 (- 324)) = True"
  "truthy (JNumber 2 (- 324)) = False"
  "truthy (JString []) = False"
  "truthy (JArray []) = True"
  by (simp_all add: roundsToZero_def)

lemma readBack_examples:
  "readBack (JNumber 1 400) = JNull"
  "readBack (JNumber 17976931348623157 292) = JNumber 17976931348623157 292"
  "readBack (JNumber 17976931348623159 292) = JNull"
  "readBack (JArray [JNumber 1 0, JString [97]]) = JArray [JNumber 1 0, JString [97]]"
  by (simp_all add: roundsToInfinity_def)

subsection \<open>The stored record written by the component is read back\<close>

lemma lexTokens_showBool:
  "lexTokens (showBool b @ cs) = map_option (Cons (boolToken b)) (lexTokens cs)"
  by (cases b) (simp_all add: showBool_def boolToken_def isWhitespace_def literalPrefix_def)

lemma startValue_boolToken: "startValue st (boolToken b) = Some (After (JBool b), st)"
  by (cases b) (simp_all add: boolToken_def)

lemma lexTokens_recordText:
  "lexTokens (recordText sel) =
     Some [TLBrace,
       TString (map of_char ''bedLeveling''), TColon, boolToken (bedLeveling sel), TComma,
       TString (map of_char ''vibration''), TColon, boolToken (vibration sel), TComma,
       TString (map of_char ''motorNoise''), TColon, boolToken (motorNoise sel), TComma,
       TString (map of_char ''nozzleOffset''), TColon, boolToken (nozzleOffset sel), TComma,
       TString (map of_char ''highTempHeatbed''), TColon, boolToken (highTempHeatbed sel),
       TRBrace]"
  by (simp add: recordText_def lexTokens_showBool isWhitespace_def literalPrefix_def
      consUnit_def)

lemma boolToken_neq [simp]:
  "boolToken b \<noteq> TRBracket" "boolToken b \<noteq> TColon" "boolToken b \<noteq> TRBrace"
  by (cases b; simp add: boolToken_def)+

lemma JSON_parse_recordText:
  "JSON_parse (recordText sel) =
     Inr (JObject
       [(map of_char ''bedLeveling'', JBool (bedLeveling sel)),
        (map of_char ''vibration'', JBool (vibration sel)),
        (map of_char ''motorNoise'', JBool (motorNoise sel)),
        (map of_char ''nozzleOffset'', JBool (nozzleOffset sel)),
        (map of_char ''highTempHeatbed'', JBool (highTempHeatbed sel))])"
  by (simp add: JSON_parse_def lexTokens_recordText startValue_boolToken)

lemma recordText_nonempty: "recordText sel \<noteq> []"
  by (simp add: recordText_def)

lemma asBoolean_Some: "asBoolean v = Some b \<longleftrightarrow> v = JBool b"
  by (cases v) auto

lemma asBooleans_Some: "asBooleans cells = Some sel \<longleftrightarrow> cells = booleans sel"
  by (cases cells; cases sel)
     (auto simp: asBooleans_def booleans_def asBoolean_Some split: option.splits)

lemma asBooleans_booleans [simp]: "asBooleans (booleans sel) = Some sel"
  by (simp add: asBooleans_Some)

lemma JSON_stringify_booleans: "JSON_stringify (booleans sel) = Text (recordText sel)"
  by (simp add: JSON_stringify_def)

lemma defaultOptions_booleans:
  "defaultOptions dual =
     booleans \<lparr>bedLeveling = True, vibration = True, motorNoise = True,
               nozzleOffset = dual, highTempHeatbed = False\<rparr>"
  by (simp add: defaultOptions_def booleans_def)

text \<open>Whatever the cells hold, the record written from them can be read.\<close>

lemma parsedOptions_stringify:
  "parsedOptions (Some (JSON_stringify cells)) =
     Inr (JObject
       [(map of_char ''bedLeveling'', readBack (bedLeveling cells)),
        (map of_char ''vibration'', readBack (vibration cells)),
        (map of_char ''motorNoise'', readBack (motorNoise cells)),
        (map of_char ''nozzleOffset'', readBack (nozzleOffset cells)),
        (map of_char ''highTempHeatbed'', readBack (highTempHeatbed cells))])"
proof (cases "asBooleans cells")
  case None
  then show ?thesis
    by (simp add: JSON_stringify_def parsedOptions_def parseStored_def)
next
  case (Some sel)
  then have cells: "cells = booleans sel" by (simp add: asBooleans_Some)
  have "parsedOptions (Some (JSON_stringify (booleans sel))) = Inr (JObject
       [(map of_char ''bedLeveling'', JBool (bedLeveling sel)),
        (map of_char ''vibration'', JBool (vibration sel)),
        (map of_char ''motorNoise'', JBool (motorNoise sel)),
        (map of_char ''nozzleOffset'', JBool (nozzleOffset sel)),
        (map of_char ''highTempHeatbed'', JBool (highTempHeatbed sel))])"
    by (simp add: JSON_stringify_booleans parsedOptions_def parseStored_def
        recordText_nonempty JSON_parse_recordText)
  then show ?thesis
    unfolding cells by (simp add: booleans_def)
qed

lemma initialOptions_stringify:
  "parsedOptions (Some (JSON_stringify (booleans sel))) = Inr v \<Longrightarrow>
     initialOptions v dual = booleans sel"
  by (auto simp: parsedOptions_stringify initialOptions_def optionalProperty_def nullishOr_def
      booleans_def)

subsection \<open>Rendering and the effects\<close>

lemma effects_cells:
  "initialized (effects c r)"
  "calibrationStarted (effects c r) = (calibrationStarted r \<or> c)"
  "seenCalibrating (effects c r) = (seenCalibrating r \<or> c)"
  "calibrationCompleted (effects c r) =
     (if c \<and> \<not> seenCalibrating r then False
      else if seenCalibrating r \<and> \<not> c \<and> \<not> calibrationCompleted r then True
      else calibrationCompleted r)"
  by (auto simp: effects_def effectInitialize_def effectSeen_def effectStarted_def
      effectCompleted_def)

lemma render_ok:
  "storedRecordOk m \<Longrightarrow>
     render m = Inr (m\<lparr>flags := effects (calibratingNow (status m)) (flags m),
                       calibrationMutation := mutation m\<rparr>)"
  by (auto simp: storedRecordOk_def render_def settle_effects split: sum.splits)

lemma render_Inr:
  "render m = Inr m' \<Longrightarrow>
     storedRecordOk m
     \<and> m' = m\<lparr>flags := effects (calibratingNow (status m)) (flags m),
               calibrationMutation := mutation m\<rparr>"
  by (auto simp: storedRecordOk_def render_def settle_effects split: sum.splits)

lemma render_failed: "\<not> storedRecordOk m \<Longrightarrow> \<exists>err. render m = Inl err"
  by (auto simp: storedRecordOk_def render_def split: sum.splits)

lemma storedRecordOk_updates [simp]:
  "storedRecordOk (m\<lparr>flags := f\<rparr>) = storedRecordOk m"
  "storedRecordOk (m\<lparr>status := s\<rparr>) = storedRecordOk m"
  "storedRecordOk (m\<lparr>options := c\<rparr>) = storedRecordOk m"
  "storedRecordOk (m\<lparr>mutation := u\<rparr>) = storedRecordOk m"
  "storedRecordOk (m\<lparr>calibrationMutation := u\<rparr>) = storedRecordOk m"
  "storedRecordOk (m\<lparr>superseded := cs\<rparr>) = storedRecordOk m"
  "storedRecordOk (m\<lparr>sent := rs\<rparr>) = storedRecordOk m"
  by (simp_all add: storedRecordOk_def savedOptions_def)

lemma storedRecordOk_written [simp]:
  "storedRecordOk (m\<lparr>localStorage := (localStorage m)(storageKey (printer m) \<mapsto> JSON_stringify cells)\<rparr>)"
  by (simp add: storedRecordOk_def savedOptions_def parsedOptions_stringify)

lemma storedRecordOk_removed [simp]:
  "storedRecordOk (m\<lparr>localStorage := (localStorage m)(storageKey (printer m) := None)\<rparr>)"
  by (simp add: storedRecordOk_def savedOptions_def parsedOptions_def)

lemma storedRecordOk_onSuccess [simp]: "storedRecordOk (onSuccess cells m)"
  by (simp add: onSuccess_def)

lemma storedRecordOk_handle: "storedRecordOk m \<Longrightarrow> storedRecordOk (handle ev m)"
  by (cases ev)
     (auto simp: clickCheckbox_def clickStart_def mutate_def startSucceeded_def
        startFailed_def olderSucceeded_def olderFailed_def clickNewCalibration_def
        resetCalibration_def)

lemma step_render:
  "rerenders ev m \<Longrightarrow> storedRecordOk m \<Longrightarrow>
     step ev m = Inr ((handle ev m)\<lparr>flags :=
        effects (calibratingNow (status (handle ev m))) (flags (handle ev m)),
        calibrationMutation := mutation (handle ev m)\<rparr>)"
  by (simp add: step_def render_ok storedRecordOk_handle)

lemma step_quiet: "\<not> rerenders ev m \<Longrightarrow> step ev m = Inr (handle ev m)"
  by (simp add: step_def)

lemma step_Inr_ok: "storedRecordOk m \<Longrightarrow> step ev m = Inr m' \<Longrightarrow> storedRecordOk m'"
  by (cases "rerenders ev m") (auto simp: step_def storedRecordOk_handle dest!: render_Inr)

lemma step_total: "storedRecordOk m \<Longrightarrow> \<exists>m'. step ev m = Inr m' \<and> storedRecordOk m'"
  by (cases "rerenders ev m") (simp_all add: step_render step_quiet storedRecordOk_handle)

lemmas cell_defs = effects_def effectInitialize_def effectSeen_def effectStarted_def
  effectCompleted_def

lemmas status_defs = calibratingNow_def isCalibrating_def CALIBRATION_STAGES_def
  currentStage_def printerState_def isConnected_def snapshot_def

lemmas handler_defs = clickCheckbox_def clickStart_def mutate_def startSucceeded_def
  onSuccess_def startFailed_def olderSucceeded_def olderFailed_def clickNewCalibration_def
  resetCalibration_def

lemma storedRecordOk_empty: "localStorage m = Map.empty \<Longrightarrow> storedRecordOk m"
  by (simp add: storedRecordOk_def savedOptions_def parsedOptions_def)

lemma storedRecordOk_initialModal_empty [simp]:
  "storedRecordOk (initialModal p s cells Map.empty)"
  by (simp add: storedRecordOk_empty initialModal_def)

lemma storageKey_singleNozzle: "storageKey singleNozzle = ''calibration_options_1''"
  by code_simp

lemma JSON_parse_brace: "JSON_parse ''{'' = Inl SyntaxError"
  by code_simp

lemma render_stable:
  assumes "render m = Inr m"
  shows "storedRecordOk m \<and> effects (calibratingNow (status m)) (flags m) = flags m
    \<and> calibrationMutation m = mutation m"
proof -
  from render_Inr [OF assms] have ok: "storedRecordOk m"
    and eq: "m = m\<lparr>flags := effects (calibratingNow (status m)) (flags m),
                   calibrationMutation := mutation m\<rparr>"
    by simp_all
  from eq have "flags m = flags (m\<lparr>flags := effects (calibratingNow (status m)) (flags m),
                   calibrationMutation := mutation m\<rparr>)"
    by simp
  moreover from eq have "calibrationMutation m
      = calibrationMutation (m\<lparr>flags := effects (calibratingNow (status m)) (flags m),
                   calibrationMutation := mutation m\<rparr>)"
    by simp
  ultimately show ?thesis using ok by simp
qed

lemma render_rest:
  assumes "storedRecordOk m" and "effects (calibratingNow (status m)) (flags m) = flags m"
    and "calibrationMutation m = mutation m"
  shows "render m = Inr m"
  using render_ok [OF assms(1)] assms(2,3) by simp

lemma mount_ok:
  assumes "parsedOptions (store (storageKey p)) = Inr v"
  shows "mount p s store =
     Inr ((initialModal p s (initialOptions v (isDualNozzle p)) store)
           \<lparr>flags := effects (calibratingNow s)
              \<lparr>initialized = False, calibrationStarted = False,
               seenCalibrating = False, calibrationCompleted = False\<rparr>\<rparr>)"
proof -
  have "storedRecordOk (initialModal p s (initialOptions v (isDualNozzle p)) store)"
    using assms by (simp add: storedRecordOk_def savedOptions_def initialModal_def)
  from render_ok [OF this] assms show ?thesis
    by (simp add: mount_def initialModal_def)
qed

lemma mount_failed:
  "parsedOptions (store (storageKey p)) = Inl err \<Longrightarrow> mount p s store = Inl err"
  by (simp add: mount_def)

lemma initialOptions_JNull: "initialOptions JNull dual = defaultOptions dual"
  by (simp add: initialOptions_def optionalProperty_def nullishOr_def defaultOptions_def)

lemma JSON_parse_Nil: "JSON_parse [] = Inl SyntaxError"
  by (simp add: JSON_parse_def)

lemma fixtures_ok:
  "storedRecordOk running13" "storedRecordOk startIdle" "storedRecordOk idleNothingSelected"
  "storedRecordOk startPending"
  by (simp_all add: running13_def startIdle_def idleNothingSelected_def startPending_def)

subsection \<open>The stage classifier\<close>

text \<open>
  C2. The classifier is true exactly when the stage code is one of 1, 3, 13, 25, 39, 40,
  47, 48, 50 and the device state is \<^verbatim>\<open>RUNNING\<close>: it is false for every other stage code
  whatever the device state, and for every other device state (a missing one too)
  whatever the stage code.
\<close>

theorem isCalibrating_iff:
  "(isCalibrating stage pstate
      \<longleftrightarrow> stage \<in> {1, 3, 13, 25, 39, 40, 47, 48, 50} \<and> pstate = Some ''RUNNING'')
   \<and> (stage \<notin> {1, 3, 13, 25, 39, 40, 47, 48, 50} \<longrightarrow> \<not> isCalibrating stage pstate)
   \<and> (pstate \<noteq> Some ''RUNNING'' \<longrightarrow> \<not> isCalibrating stage pstate)"
  by (simp add: isCalibrating_def CALIBRATION_STAGES_def)

theorem isCalibrating_iff_witness:
  "isCalibrating 13 (Some ''RUNNING'')
   \<and> (2::int) \<notin> {1, 3, 13, 25, 39, 40, 47, 48, 50} \<and> \<not> isCalibrating 2 (Some ''RUNNING'')
   \<and> Some ''IDLE'' \<noteq> Some ''RUNNING'' \<and> \<not> isCalibrating 13 (Some ''IDLE'')"
  using isCalibrating_iff [of 13 "Some ''RUNNING''"] isCalibrating_iff [of 2 "Some ''RUNNING''"]
    isCalibrating_iff [of 13 "Some ''IDLE''"]
  by simp

subsection \<open>Snapshots\<close>

text \<open>
  C4. Delivering the same status snapshot twice in a row gives the state that delivering
  it once gives: the second delivery changes no cell (started, seen, completed), and the
  derived step index is that of the first delivery. When the first render fails, so does
  the pair.
\<close>

theorem snapshot_idempotent:
  "run [StatusUpdate s, StatusUpdate s] m = run [StatusUpdate s] m
   \<and> (step (StatusUpdate s) m = Inr m1 \<longrightarrow>
        step (StatusUpdate s) m1 = Inr m1
        \<and> flags m1 = effects (calibratingNow s) (flags m)
        \<and> currentStepIndex m1
            = stepIndex (expectedFlow (truthiness (options m)) (isDualNozzle (printer m)))
                (currentStage s))"
proof -
  have once: "step (StatusUpdate s) m1 = Inr m1
        \<and> flags m1 = effects (calibratingNow s) (flags m)
        \<and> currentStepIndex m1
            = stepIndex (expectedFlow (truthiness (options m)) (isDualNozzle (printer m)))
                (currentStage s)"
    if "step (StatusUpdate s) m = Inr m1" for m1
  proof -
    from that have ok: "storedRecordOk m"
      and m1: "m1 = m\<lparr>status := s, flags := effects (calibratingNow s) (flags m),
                       calibrationMutation := mutation m\<rparr>"
      by (auto simp: step_def dest!: render_Inr)
    from ok have "storedRecordOk m1" by (simp add: m1)
    from step_render [OF _ this, of "StatusUpdate s"] show ?thesis
      by (simp add: m1 effects_idem currentStepIndex_def)
  qed
  have "run [StatusUpdate s, StatusUpdate s] m = run [StatusUpdate s] m"
    using once by (cases "step (StatusUpdate s) m") auto
  with once show ?thesis by blast
qed

theorem snapshot_idempotent_witness:
  "run [StatusUpdate (snapshot ''IDLE'' 48), StatusUpdate (snapshot ''IDLE'' 48)] running13 =
     run [StatusUpdate (snapshot ''IDLE'' 48)] running13
   \<and> step (StatusUpdate (snapshot ''IDLE'' 48)) running13 =
       Inr (running13\<lparr>status := snapshot ''IDLE'' 48,
              flags := \<lparr>initialized = True, calibrationStarted = True,
                        seenCalibrating = True, calibrationCompleted = True\<rparr>\<rparr>)
   \<and> step (StatusUpdate (snapshot ''IDLE'' 48))
        (running13\<lparr>status := snapshot ''IDLE'' 48,
              flags := \<lparr>initialized = True, calibrationStarted = True,
                        seenCalibrating = True, calibrationCompleted = True\<rparr>\<rparr>) =
       Inr (running13\<lparr>status := snapshot ''IDLE'' 48,
              flags := \<lparr>initialized = True, calibrationStarted = True,
                        seenCalibrating = True, calibrationCompleted = True\<rparr>\<rparr>)"
proof -
  have ok: "storedRecordOk running13" by (simp add: running13_def)
  have st: "step (StatusUpdate (snapshot ''IDLE'' 48)) running13 =
       Inr (running13\<lparr>status := snapshot ''IDLE'' 48,
              flags := \<lparr>initialized = True, calibrationStarted = True,
                        seenCalibrating = True, calibrationCompleted = True\<rparr>\<rparr>)"
    by (subst step_render [OF _ ok])
       (simp_all add: running13_def initialModal_def cell_defs status_defs)
  from snapshot_idempotent [of "snapshot ''IDLE'' 48" running13] st show ?thesis by simp
qed

lemma handle_seen:
  "ev \<noteq> ClickNewCalibration \<Longrightarrow>
     seenCalibrating (flags (handle ev m)) = seenCalibrating (flags m)"
  by (cases ev) (auto simp: handler_defs)

lemma step_seen:
  assumes "storedRecordOk m" and "seenCalibrating (flags m)" and "ev \<noteq> ClickNewCalibration"
  shows "\<exists>m'. step ev m = Inr m' \<and> storedRecordOk m' \<and> seenCalibrating (flags m')"
  using assms
  by (cases "rerenders ev m")
     (simp_all add: step_render step_quiet effects_cells handle_seen storedRecordOk_handle)

text \<open>
  C3. Once the printer has been seen calibrating, the cell stays true through every
  sequence of events without the reset (status snapshots, checkbox and start clicks, the
  answers of the requests, renders), and every such sequence renders without failure
  when the stored record can be read. The handler of the reset button is what makes it
  false.
\<close>

theorem seenCalibrating_monotone:
  assumes "seenCalibrating (flags m)" and "ClickNewCalibration \<notin> set evs"
    and "storedRecordOk m"
  shows "(\<exists>m'. run evs m = Inr m' \<and> seenCalibrating (flags m'))
    \<and> \<not> seenCalibrating (flags (resetCalibration m))"
proof -
  have "\<exists>m'. run evs m = Inr m' \<and> seenCalibrating (flags m')"
    using assms
  proof (induction evs arbitrary: m)
    case Nil
    then show ?case by simp
  next
    case (Cons ev evs)
    from Cons.prems have "ev \<noteq> ClickNewCalibration" by auto
    from step_seen [OF Cons.prems(3) Cons.prems(1) this]
    obtain m1 where m1: "step ev m = Inr m1" "storedRecordOk m1" "seenCalibrating (flags m1)"
      by blast
    from Cons.prems have "ClickNewCalibration \<notin> set evs" by simp
    from Cons.IH [OF m1(3) this m1(2)] m1(1) show ?case by simp
  qed
  then show ?thesis by (simp add: resetCalibration_def)
qed

theorem seenCalibrating_monotone_witness:
  "seenCalibrating (flags running13)
   \<and> ClickNewCalibration \<notin> set [StatusUpdate (snapshot ''RUNNING'' 1), StatusUpdate None,
        ClickCheckbox VibrationBox, ClickStart, ClickStart, Rerender, StartFailed None,
        OlderSucceeded 0, StatusUpdate (snapshot ''IDLE'' 255), StartSucceeded, Rerender]
   \<and> storedRecordOk running13
   \<and> (\<exists>m'. run [StatusUpdate (snapshot ''RUNNING'' 1), StatusUpdate None,
        ClickCheckbox VibrationBox, ClickStart, ClickStart, Rerender, StartFailed None,
        OlderSucceeded 0, StatusUpdate (snapshot ''IDLE'' 255), StartSucceeded, Rerender]
          running13 = Inr m'
      \<and> seenCalibrating (flags m'))
   \<and> \<not> seenCalibrating (flags (resetCalibration running13))"
proof -
  have a: "seenCalibrating (flags running13)" "storedRecordOk running13"
    by (simp_all add: fixtures_ok) (simp add: running13_def)
  have b: "ClickNewCalibration \<notin> set [StatusUpdate (snapshot ''RUNNING'' 1), StatusUpdate None,
        ClickCheckbox VibrationBox, ClickStart, ClickStart, Rerender, StartFailed None,
        OlderSucceeded 0, StatusUpdate (snapshot ''IDLE'' 255), StartSucceeded, Rerender]"
    by simp
  from seenCalibrating_monotone [OF a(1) b a(2)] a b show ?thesis by blast
qed

text \<open>
  C10. A missing status gives \<^verbatim>\<open>isConnected = false\<close> and \<^verbatim>\<open>currentStage = -1\<close>, so the
  printer counts as not calibrating and the start button does nothing; delivered to an
  overlay that has seen the printer calibrating, a missing status renders without
  failure and leaves the calibration completed.
\<close>

theorem absent_status:
  "isConnected None = False \<and> currentStage None = - 1 \<and> \<not> calibratingNow None
   \<and> \<not> canStart (m\<lparr>status := None\<rparr>)
   \<and> clickStart (m\<lparr>status := None\<rparr>) = m\<lparr>status := None\<rparr>
   \<and> (storedRecordOk m \<and> seenCalibrating (flags m) \<longrightarrow>
        (\<exists>m'. step (StatusUpdate None) m = Inr m' \<and> status m' = None
           \<and> seenCalibrating (flags m') \<and> calibrationCompleted (flags m')))"
  by (auto simp: step_render effects_cells status_defs canStart_def clickStart_def)

theorem absent_status_witness:
  "storedRecordOk running13 \<and> seenCalibrating (flags running13)
   \<and> \<not> calibrationCompleted (flags running13)
   \<and> \<not> canStart (running13\<lparr>status := None\<rparr>)
   \<and> (\<exists>m'. step (StatusUpdate None) running13 = Inr m' \<and> status m' = None
           \<and> seenCalibrating (flags m') \<and> calibrationCompleted (flags m'))"
proof -
  have "storedRecordOk running13" "seenCalibrating (flags running13)"
    "\<not> calibrationCompleted (flags running13)"
    by (simp_all add: fixtures_ok) (simp_all add: running13_def)
  with absent_status [of running13] show ?thesis by simp
qed

subsection \<open>The expected flow\<close>

text \<open>
  C6, as the code has it. With no option selected the flow is not empty: it is the
  homing step alone, for a single and for a dual nozzle printer. (The timeline is not
  shown then, since \<^verbatim>\<open>hasSelection\<close> is false.)
\<close>

theorem nothing_selected_flow:
  "expectedFlow
     \<lparr>bedLeveling = False, vibration = False, motorNoise = False,
      nozzleOffset = False, highTempHeatbed = False\<rparr> dual
   = [\<lparr>name = ''Homing toolhead'', stages = [13]\<rparr>]
   \<and> hasSelection
     \<lparr>bedLeveling = False, vibration = False, motorNoise = False,
      nozzleOffset = False, highTempHeatbed = False\<rparr> = False"
  by (simp add: expectedFlow_def hasSelection_def)

text \<open>The flow of the empty selection is not the empty list.\<close>

theorem nothing_selected_counterexample:
  "expectedFlow nothingSelected False \<noteq> []"
  by (simp add: expectedFlow_def nothingSelected_def)

subsection \<open>The fixtures at rest\<close>

lemma fixtures_rest:
  "render startIdle = Inr startIdle" "render startPending = Inr startPending"
  "render idleNothingSelected = Inr idleNothingSelected"
  "render startedNotRunning = Inr startedNotRunning"
proof -
  show "render startIdle = Inr startIdle"
    by (rule render_rest [OF fixtures_ok(2)])
       (simp_all add: startIdle_def initialModal_def atRest_def cell_defs status_defs)
  show "render startPending = Inr startPending"
    by (rule render_rest [OF fixtures_ok(4)])
       (simp_all add: startPending_def startIdle_def initialModal_def atRest_def cell_defs
          status_defs)
  show "render idleNothingSelected = Inr idleNothingSelected"
    by (rule render_rest [OF fixtures_ok(3)])
       (simp_all add: idleNothingSelected_def initialModal_def atRest_def cell_defs status_defs)
  have "storedRecordOk startedNotRunning"
    by (simp add: startedNotRunning_def startIdle_def initialModal_def storedRecordOk_def
        savedOptions_def parsedOptions_stringify)
  then show "render startedNotRunning = Inr startedNotRunning"
    by (rule render_rest)
       (simp_all add: startedNotRunning_def startIdle_def initialModal_def atRest_def cell_defs
          status_defs)
qed

lemma mount_idle: "mount singleNozzle (snapshot ''IDLE'' 255) Map.empty = Inr startIdle"
proof -
  have "parsedOptions ((Map.empty :: string \<rightharpoonup> stored) (storageKey singleNozzle)) = Inr JNull"
    by (simp add: parsedOptions_def)
  from mount_ok [where store = "Map.empty" and p = singleNozzle, OF this]
  show ?thesis
    by (simp add: isDualNozzle_def singleNozzle_def initialOptions_JNull initialModal_def
        startIdle_def atRest_def cell_defs status_defs)
qed

subsection \<open>Scenario B\<close>

text \<open>
  C1. Scenario B. With Scenario A's flow (bed leveling alone, single nozzle: homing,
  cooling, bed leveling phase 1 and phase 2), the snapshots (RUNNING, 13), (RUNNING, 1),
  (RUNNING, 48), (IDLE, 48) give the step indices 0, 2, 3, 3; the calibration is started,
  seen and not completed after each of the first three, and completed after the last.
  This holds from the progress cells all false, whether the overlay has rendered before
  (\<open>init\<close> true: the overlay was opened on a printer that was not calibrating, whatever
  status \<open>s\<close> it showed) or not, and in particular for the overlay mounted on an idle
  printer with Scenario A's selection in the store.
\<close>

theorem scenario_B:
  "map name (expectedFlow scenarioA (isDualNozzle singleNozzle)) =
     [''Homing toolhead'', ''Cooling heatbed'', ''Auto bed leveling - phase 1'',
      ''Auto bed leveling - phase 2'']
   \<and> (\<exists>m1 m2 m3 m4.
        step (StatusUpdate (snapshot ''RUNNING'' 13))
          ((initialModal singleNozzle s (booleans scenarioA) Map.empty)
             \<lparr>flags := \<lparr>initialized = init, calibrationStarted = False,
                        seenCalibrating = False, calibrationCompleted = False\<rparr>\<rparr>) = Inr m1
      \<and> step (StatusUpdate (snapshot ''RUNNING'' 1)) m1 = Inr m2
      \<and> step (StatusUpdate (snapshot ''RUNNING'' 48)) m2 = Inr m3
      \<and> step (StatusUpdate (snapshot ''IDLE'' 48)) m3 = Inr m4
      \<and> currentStepIndex m1 = 0 \<and> currentStepIndex m2 = 2
      \<and> currentStepIndex m3 = 3 \<and> currentStepIndex m4 = 3
      \<and> calibrationStarted (flags m1) \<and> seenCalibrating (flags m1)
      \<and> \<not> calibrationCompleted (flags m1)
      \<and> calibrationStarted (flags m2) \<and> seenCalibrating (flags m2)
      \<and> \<not> calibrationCompleted (flags m2)
      \<and> calibrationStarted (flags m3) \<and> seenCalibrating (flags m3)
      \<and> \<not> calibrationCompleted (flags m3)
      \<and> calibrationStarted (flags m4) \<and> seenCalibrating (flags m4)
      \<and> calibrationCompleted (flags m4))
   \<and> (\<exists>m0 m1 m2 m3 m4.
        mount singleNozzle (snapshot ''IDLE'' 255)
          [storageKey singleNozzle \<mapsto> JSON_stringify (booleans scenarioA)] = Inr m0
      \<and> options m0 = booleans scenarioA
      \<and> flags m0 = \<lparr>initialized = True, calibrationStarted = False,
                      seenCalibrating = False, calibrationCompleted = False\<rparr>
      \<and> step (StatusUpdate (snapshot ''RUNNING'' 13)) m0 = Inr m1
      \<and> step (StatusUpdate (snapshot ''RUNNING'' 1)) m1 = Inr m2
      \<and> step (StatusUpdate (snapshot ''RUNNING'' 48)) m2 = Inr m3
      \<and> step (StatusUpdate (snapshot ''IDLE'' 48)) m3 = Inr m4
      \<and> currentStepIndex m1 = 0 \<and> currentStepIndex m2 = 2
      \<and> currentStepIndex m3 = 3 \<and> currentStepIndex m4 = 3
      \<and> calibrationStarted (flags m1) \<and> seenCalibrating (flags m1)
      \<and> \<not> calibrationCompleted (flags m1)
      \<and> calibrationStarted (flags m2) \<and> seenCalibrating (flags m2)
      \<and> \<not> calibrationCompleted (flags m2)
      \<and> calibrationStarted (flags m3) \<and> seenCalibrating (flags m3)
      \<and> \<not> calibrationCompleted (flags m3)
      \<and> calibrationStarted (flags m4) \<and> seenCalibrating (flags m4)
      \<and> calibrationCompleted (flags m4))"
proof -
  have steps: "\<exists>m1 m2 m3 m4.
          step (StatusUpdate (snapshot ''RUNNING'' 13)) m = Inr m1
        \<and> step (StatusUpdate (snapshot ''RUNNING'' 1)) m1 = Inr m2
        \<and> step (StatusUpdate (snapshot ''RUNNING'' 48)) m2 = Inr m3
        \<and> step (StatusUpdate (snapshot ''IDLE'' 48)) m3 = Inr m4
        \<and> currentStepIndex m1 = 0 \<and> currentStepIndex m2 = 2
        \<and> currentStepIndex m3 = 3 \<and> currentStepIndex m4 = 3
        \<and> calibrationStarted (flags m1) \<and> seenCalibrating (flags m1)
        \<and> \<not> calibrationCompleted (flags m1)
        \<and> calibrationStarted (flags m2) \<and> seenCalibrating (flags m2)
        \<and> \<not> calibrationCompleted (flags m2)
        \<and> calibrationStarted (flags m3) \<and> seenCalibrating (flags m3)
        \<and> \<not> calibrationCompleted (flags m3)
        \<and> calibrationStarted (flags m4) \<and> seenCalibrating (flags m4)
        \<and> calibrationCompleted (flags m4)"
    if "storedRecordOk m" and "printer m = singleNozzle"
      and "options m = booleans scenarioA"
      and "flags m = \<lparr>initialized = b, calibrationStarted = False,
                       seenCalibrating = False, calibrationCompleted = False\<rparr>"
    for m b
    using that
    by (simp add: step_render cell_defs status_defs currentStepIndex_def stepIndex_def
        findIndex_def expectedFlow_def truthiness_def booleans_def scenarioA_def
        singleNozzle_def isDualNozzle_def)
  show ?thesis
  proof (intro conjI)
    show "map name (expectedFlow scenarioA (isDualNozzle singleNozzle)) =
       [''Homing toolhead'', ''Cooling heatbed'', ''Auto bed leveling - phase 1'',
        ''Auto bed leveling - phase 2'']"
      by (simp add: expectedFlow_def scenarioA_def)
  next
    let ?m = "(initialModal singleNozzle s (booleans scenarioA) Map.empty)
               \<lparr>flags := \<lparr>initialized = init, calibrationStarted = False,
                          seenCalibrating = False, calibrationCompleted = False\<rparr>\<rparr>"
    have "storedRecordOk ?m" "printer ?m = singleNozzle" "options ?m = booleans scenarioA"
      "flags ?m = \<lparr>initialized = init, calibrationStarted = False,
                     seenCalibrating = False, calibrationCompleted = False\<rparr>"
      by (simp_all add: initialModal_def storedRecordOk_empty)
    from steps [OF this]
    show "\<exists>m1 m2 m3 m4.
          step (StatusUpdate (snapshot ''RUNNING'' 13)) ?m = Inr m1
        \<and> step (StatusUpdate (snapshot ''RUNNING'' 1)) m1 = Inr m2
        \<and> step (StatusUpdate (snapshot ''RUNNING'' 48)) m2 = Inr m3
        \<and> step (StatusUpdate (snapshot ''IDLE'' 48)) m3 = Inr m4
        \<and> currentStepIndex m1 = 0 \<and> currentStepIndex m2 = 2
        \<and> currentStepIndex m3 = 3 \<and> currentStepIndex m4 = 3
        \<and> calibrationStarted (flags m1) \<and> seenCalibrating (flags m1)
        \<and> \<not> calibrationCompleted (flags m1)
        \<and> calibrationStarted (flags m2) \<and> seenCalibrating (flags m2)
        \<and> \<not> calibrationCompleted (flags m2)
        \<and> calibrationStarted (flags m3) \<and> seenCalibrating (flags m3)
        \<and> \<not> calibrationCompleted (flags m3)
        \<and> calibrationStarted (flags m4) \<and> seenCalibrating (flags m4)
        \<and> calibrationCompleted (flags m4)" .
  next
    let ?store = "[storageKey singleNozzle \<mapsto> JSON_stringify (booleans scenarioA)]"
    let ?m0 = "(initialModal singleNozzle (snapshot ''IDLE'' 255) (booleans scenarioA) ?store)
               \<lparr>flags := \<lparr>initialized = True, calibrationStarted = False,
                          seenCalibrating = False, calibrationCompleted = False\<rparr>\<rparr>"
    obtain v where v: "parsedOptions (?store (storageKey singleNozzle)) = Inr v"
      by (simp add: parsedOptions_stringify)
    then have "initialOptions v (isDualNozzle singleNozzle) = booleans scenarioA"
      by (simp add: initialOptions_stringify)
    with mount_ok [where store = ?store and p = singleNozzle and s = "snapshot ''IDLE'' 255", OF v]
    have mounted: "mount singleNozzle (snapshot ''IDLE'' 255) ?store = Inr ?m0"
      by (simp add: initialModal_def cell_defs status_defs)
    have "storedRecordOk ?m0" "printer ?m0 = singleNozzle" "options ?m0 = booleans scenarioA"
      "flags ?m0 = \<lparr>initialized = True, calibrationStarted = False,
                      seenCalibrating = False, calibrationCompleted = False\<rparr>"
      by (simp_all add: initialModal_def storedRecordOk_def savedOptions_def
          parsedOptions_stringify)
    from steps [OF this] mounted
    show "\<exists>m0 m1 m2 m3 m4.
          mount singleNozzle (snapshot ''IDLE'' 255) ?store = Inr m0
        \<and> options m0 = booleans scenarioA
        \<and> flags m0 = \<lparr>initialized = True, calibrationStarted = False,
                        seenCalibrating = False, calibrationCompleted = False\<rparr>
        \<and> step (StatusUpdate (snapshot ''RUNNING'' 13)) m0 = Inr m1
        \<and> step (StatusUpdate (snapshot ''RUNNING'' 1)) m1 = Inr m2
        \<and> step (StatusUpdate (snapshot ''RUNNING'' 48)) m2 = Inr m3
        \<and> step (StatusUpdate (snapshot ''IDLE'' 48)) m3 = Inr m4
        \<and> currentStepIndex m1 = 0 \<and> currentStepIndex m2 = 2
        \<and> currentStepIndex m3 = 3 \<and> currentStepIndex m4 = 3
        \<and> calibrationStarted (flags m1) \<and> seenCalibrating (flags m1)
        \<and> \<not> calibrationCompleted (flags m1)
        \<and> calibrationStarted (flags m2) \<and> seenCalibrating (flags m2)
        \<and> \<not> calibrationCompleted (flags m2)
        \<and> calibrationStarted (flags m3) \<and> seenCalibrating (flags m3)
        \<and> \<not> calibrationCompleted (flags m3)
        \<and> calibrationStarted (flags m4) \<and> seenCalibrating (flags m4)
        \<and> calibrationCompleted (flags m4)"
      by (simp add: initialModal_def)
  qed
qed

subsection \<open>Starting the calibration\<close>






subsection \<open>The checkboxes\<close>

text \<open>
  C9, as the code has it. A checkbox is disabled exactly when the printer is not
  connected or is calibrating: a click then changes nothing. On a connected printer that
  is not calibrating a click on a checkbox that is shown flips its option, whatever the
  progress cells are.
\<close>

theorem checkbox_gate:
  "checkboxDisabled m = (\<not> isConnected (status m) \<or> calibratingNow (status m))
   \<and> (calibratingNow (status m) \<or> \<not> isConnected (status m) \<longrightarrow> clickCheckbox box m = m)
   \<and> (isConnected (status m) \<and> \<not> calibratingNow (status m) \<and> checkboxShown m box \<longrightarrow>
        options (clickCheckbox box m)
          = onChange box (JBool (\<not> truthy (checked box (options m)))) (options m)
        \<and> checked box (options (clickCheckbox box m))
          = JBool (\<not> truthy (checked box (options m))))"
  by (cases box) (auto simp: clickCheckbox_def checkboxDisabled_def)

theorem checkbox_gate_witness:
  "calibratingNow (status running13)
   \<and> clickCheckbox BedLevelingBox running13 = running13
   \<and> isConnected (status startedNotRunning) \<and> \<not> calibratingNow (status startedNotRunning)
   \<and> checkboxShown startedNotRunning VibrationBox
   \<and> checked VibrationBox (options startedNotRunning) = JBool True
   \<and> checked VibrationBox (options (clickCheckbox VibrationBox startedNotRunning)) = JBool False"
proof -
  have a: "calibratingNow (status running13)"
    by (simp add: running13_def initialModal_def status_defs)
  have b: "isConnected (status startedNotRunning)" "\<not> calibratingNow (status startedNotRunning)"
    "checkboxShown startedNotRunning VibrationBox"
    "checked VibrationBox (options startedNotRunning) = JBool True"
    by (simp_all add: startedNotRunning_def startIdle_def initialModal_def status_defs
        defaultOptions_def)
  from checkbox_gate [of running13 BedLevelingBox] checkbox_gate [of startedNotRunning VibrationBox]
    a b
  show ?thesis by simp
qed

text \<open>
  The overlay is mounted on an idle, connected printer, the start button is clicked and
  the request succeeds. The calibration is then started and not completed, and a click on
  the bed leveling checkbox clears the option.
\<close>

theorem checkbox_enabled_while_started_counterexample:
  "mount singleNozzle (snapshot ''IDLE'' 255) Map.empty = Inr startIdle
   \<and> run [ClickStart, StartSucceeded, Rerender] startIdle = Inr startedNotRunning
   \<and> calibrationStarted (flags startedNotRunning)
   \<and> \<not> calibrationCompleted (flags startedNotRunning)
   \<and> \<not> checkboxDisabled startedNotRunning
   \<and> bedLeveling (options startedNotRunning) = JBool True
   \<and> step (ClickCheckbox BedLevelingBox) startedNotRunning
      = Inr (startedNotRunning\<lparr>options := (defaultOptions False)\<lparr>bedLeveling := JBool False\<rparr>\<rparr>)"
proof -
  let ?idle = "snapshot ''IDLE'' 255"
  let ?m1 = "startIdle\<lparr>mutation := MPending, sent := [(1, defaultOptions False)]\<rparr>"
  let ?m2 = "startIdle\<lparr>flags := atRest\<lparr>calibrationStarted := True\<rparr>,
               mutation := MSuccess,
               localStorage := [storageKey singleNozzle \<mapsto> JSON_stringify (defaultOptions False)],
               sent := [(1, defaultOptions False)]\<rparr>"
  have idle: "isConnected ?idle" "\<not> calibratingNow ?idle"
    by (simp_all add: status_defs)
  have s1: "step ClickStart startIdle = Inr ?m1"
    by (simp add: step_quiet startIdle_def initialModal_def clickStart_def canStart_def
        mutate_def idle atRest_def hasSelection_def truthiness_def defaultOptions_def
        singleNozzle_def)
  have s2: "step StartSucceeded ?m1 = Inr ?m2"
    by (simp add: step_quiet startIdle_def initialModal_def startSucceeded_def onSuccess_def
        atRest_def)
  have ok2: "storedRecordOk ?m2"
    by (simp add: startIdle_def initialModal_def storedRecordOk_def savedOptions_def
        parsedOptions_stringify)
  have s3: "step Rerender ?m2 = Inr startedNotRunning"
    by (subst step_render [OF _ ok2])
       (simp_all add: startedNotRunning_def startIdle_def initialModal_def atRest_def
          cell_defs idle)
  have ok3: "storedRecordOk startedNotRunning"
    using render_stable [OF fixtures_rest(4)] by simp
  have en: "rerenders (ClickCheckbox BedLevelingBox) startedNotRunning"
    by (simp add: startedNotRunning_def startIdle_def initialModal_def checkboxDisabled_def idle)
  have s4: "step (ClickCheckbox BedLevelingBox) startedNotRunning
      = Inr (startedNotRunning\<lparr>options := (defaultOptions False)\<lparr>bedLeveling := JBool False\<rparr>\<rparr>)"
    by (subst step_render [OF en ok3])
       (simp add: startedNotRunning_def startIdle_def initialModal_def clickCheckbox_def
          checkboxDisabled_def idle cell_defs atRest_def defaultOptions_def)
  have rest: "calibrationStarted (flags startedNotRunning)"
    "\<not> calibrationCompleted (flags startedNotRunning)"
    "\<not> checkboxDisabled startedNotRunning"
    "bedLeveling (options startedNotRunning) = JBool True"
    by (simp_all add: startedNotRunning_def startIdle_def initialModal_def atRest_def
        checkboxDisabled_def idle defaultOptions_def)
  from mount_idle s1 s2 s3 s4 rest show ?thesis by simp
qed

subsection \<open>Reading the stored record\<close>

lemma map_of_rev_last:
  "map_of (rev ms) k =
     (case filter (\<lambda>kv. fst kv = k) ms of
        [] \<Rightarrow> None
      | kv # kvs \<Rightarrow> Some (snd (last (kv # kvs))))"
proof (induction ms rule: rev_induct)
  case Nil
  then show ?case by simp
next
  case (snoc x xs)
  then show ?case
    by (cases x) (auto split: list.splits)
qed

lemma initialOptions_not_object:
  "(\<forall>members. v \<noteq> JObject members) \<Longrightarrow> initialOptions v dual = defaultOptions dual"
  by (cases v)
     (simp_all add: initialOptions_def optionalProperty_def nullishOr_def defaultOptions_def)

lemma JSON_parse_mixed:
  "JSON_parse ''{\"bedLeveling\":null,\"vibration\":true,\"vibration\":false,\"motorNoise\":0}''
     = Inr (JObject
         [(map of_char ''bedLeveling'', JNull), (map of_char ''vibration'', JBool True),
          (map of_char ''vibration'', JBool False), (map of_char ''motorNoise'', JNumber 0 0)])"
  "JSON_parse ''[false]'' = Inr (JArray [JBool False])"
  by code_simp+

subsection \<open>The stored selection record\<close>

text \<open>
  C5, as the code has it. Mounting succeeds when the stored record is missing or empty,
  with the default selection, and when it is JSON. Of a JSON object each option takes the
  value of the last member of its name, of whatever type, and its default when there is
  no such member or that member is null; a JSON value that is not an object gives the
  defaults. A record that is not JSON is not treated as missing: \<^verbatim>\<open>JSON.parse\<close> throws
  and nothing catches it, so mounting fails. A record that the component wrote can
  always be read, and one written from booleans gives them back.
\<close>

theorem initialization:
  "(store (storageKey p) = None \<or> store (storageKey p) = Some (Text []) \<longrightarrow>
      (\<exists>m. mount p s store = Inr m \<and> options m = defaultOptions (isDualNozzle p)))
   \<and> (store (storageKey p) = Some (Text saved) \<and> JSON_parse saved = Inr (JObject members) \<longrightarrow>
      (\<exists>m. mount p s store = Inr m
         \<and> options m =
             \<lparr>bedLeveling = optionOfRecord members ''bedLeveling'' (JBool True),
              vibration = optionOfRecord members ''vibration'' (JBool True),
              motorNoise = optionOfRecord members ''motorNoise'' (JBool True),
              nozzleOffset = optionOfRecord members ''nozzleOffset'' (JBool (isDualNozzle p)),
              highTempHeatbed = optionOfRecord members ''highTempHeatbed'' (JBool False)\<rparr>))
   \<and> (store (storageKey p) = Some (Text saved) \<and> JSON_parse saved = Inr v
        \<and> (\<forall>members. v \<noteq> JObject members) \<longrightarrow>
      (\<exists>m. mount p s store = Inr m \<and> options m = defaultOptions (isDualNozzle p)))
   \<and> (store (storageKey p) = Some (Text saved) \<and> saved \<noteq> [] \<and> JSON_parse saved = Inl err \<longrightarrow>
      mount p s store = Inl err)
   \<and> (store (storageKey p) = Some (JSON_stringify cells) \<longrightarrow> (\<exists>m. mount p s store = Inr m))
   \<and> (store (storageKey p) = Some (JSON_stringify (booleans sel)) \<longrightarrow>
      (\<exists>m. mount p s store = Inr m \<and> options m = booleans sel))"
proof (intro conjI impI)
  assume "store (storageKey p) = None \<or> store (storageKey p) = Some (Text [])"
  then have "parsedOptions (store (storageKey p)) = Inr JNull"
    by (auto simp: parsedOptions_def)
  from mount_ok [where store = store and p = p, OF this]
  show "\<exists>m. mount p s store = Inr m \<and> options m = defaultOptions (isDualNozzle p)"
    by (simp add: initialOptions_JNull initialModal_def)
next
  assume a: "store (storageKey p) = Some (Text saved) \<and> JSON_parse saved = Inr (JObject members)"
  then have "saved \<noteq> []" by (auto simp: JSON_parse_Nil)
  with a have parsed: "parsedOptions (store (storageKey p)) = Inr (JObject members)"
    by (simp add: parsedOptions_def parseStored_def)
  have member: "nullishOr (optionalProperty (JObject members) key) fallback
      = optionOfRecord members key fallback" for key fallback
    by (simp add: nullishOr_def optionalProperty_def optionOfRecord_def map_of_rev_last
        split: list.splits)
  from mount_ok [where store = store and p = p, OF parsed]
  show "\<exists>m. mount p s store = Inr m
         \<and> options m =
             \<lparr>bedLeveling = optionOfRecord members ''bedLeveling'' (JBool True),
              vibration = optionOfRecord members ''vibration'' (JBool True),
              motorNoise = optionOfRecord members ''motorNoise'' (JBool True),
              nozzleOffset = optionOfRecord members ''nozzleOffset'' (JBool (isDualNozzle p)),
              highTempHeatbed = optionOfRecord members ''highTempHeatbed'' (JBool False)\<rparr>"
    by (simp add: initialModal_def initialOptions_def member)
next
  assume a: "store (storageKey p) = Some (Text saved) \<and> JSON_parse saved = Inr v
        \<and> (\<forall>members. v \<noteq> JObject members)"
  then have "saved \<noteq> []" by (auto simp: JSON_parse_Nil)
  with a have "parsedOptions (store (storageKey p)) = Inr v"
    by (simp add: parsedOptions_def parseStored_def)
  from mount_ok [where store = store and p = p, OF this] a
  show "\<exists>m. mount p s store = Inr m \<and> options m = defaultOptions (isDualNozzle p)"
    by (simp add: initialModal_def initialOptions_not_object)
next
  assume "store (storageKey p) = Some (Text saved) \<and> saved \<noteq> [] \<and> JSON_parse saved = Inl err"
  then have "parsedOptions (store (storageKey p)) = Inl err"
    by (simp add: parsedOptions_def parseStored_def)
  then show "mount p s store = Inl err" by (rule mount_failed)
next
  assume "store (storageKey p) = Some (JSON_stringify cells)"
  then obtain v where "parsedOptions (store (storageKey p)) = Inr v"
    by (simp add: parsedOptions_stringify)
  from mount_ok [where store = store and p = p, OF this]
  show "\<exists>m. mount p s store = Inr m" by simp
next
  assume a: "store (storageKey p) = Some (JSON_stringify (booleans sel))"
  then obtain v where v: "parsedOptions (store (storageKey p)) = Inr v"
    by (simp add: parsedOptions_stringify)
  with a have "initialOptions v (isDualNozzle p) = booleans sel"
    by (simp add: initialOptions_stringify)
  with mount_ok [where store = store and p = p, OF v]
  show "\<exists>m. mount p s store = Inr m \<and> options m = booleans sel"
    by (simp add: initialModal_def)
qed

theorem initialization_witness:
  "(\<exists>m. mount singleNozzle None Map.empty = Inr m \<and> options m = defaultOptions False)
   \<and> JSON_parse ''{\"bedLeveling\":null,\"vibration\":true,\"vibration\":false,\"motorNoise\":0}''
       = Inr (JObject
         [(map of_char ''bedLeveling'', JNull), (map of_char ''vibration'', JBool True),
          (map of_char ''vibration'', JBool False), (map of_char ''motorNoise'', JNumber 0 0)])
   \<and> (\<exists>m. mount singleNozzle None
          [storageKey singleNozzle \<mapsto>
             Text ''{\"bedLeveling\":null,\"vibration\":true,\"vibration\":false,\"motorNoise\":0}'']
          = Inr m
        \<and> options m =
            \<lparr>bedLeveling = JBool True, vibration = JBool False, motorNoise = JNumber 0 0,
             nozzleOffset = JBool False, highTempHeatbed = JBool False\<rparr>)
   \<and> JSON_parse ''[false]'' = Inr (JArray [JBool False])
   \<and> (\<exists>m. mount singleNozzle None [storageKey singleNozzle \<mapsto> Text ''[false]''] = Inr m
        \<and> options m = defaultOptions False)
   \<and> JSON_parse ''{'' = Inl SyntaxError
   \<and> mount singleNozzle None [storageKey singleNozzle \<mapsto> Text ''{''] = Inl SyntaxError
   \<and> (\<exists>m. mount singleNozzle None [storageKey singleNozzle \<mapsto> JSON_stringify (booleans scenarioA)]
          = Inr m
        \<and> options m = booleans scenarioA)"
proof -
  have dual: "isDualNozzle singleNozzle = False"
    by (simp add: isDualNozzle_def singleNozzle_def)
  have opts:
    "optionOfRecord
       [(map of_char ''bedLeveling'', JNull), (map of_char ''vibration'', JBool True),
        (map of_char ''vibration'', JBool False), (map of_char ''motorNoise'', JNumber 0 0)]
       ''bedLeveling'' (JBool True) = JBool True"
    "optionOfRecord
       [(map of_char ''bedLeveling'', JNull), (map of_char ''vibration'', JBool True),
        (map of_char ''vibration'', JBool False), (map of_char ''motorNoise'', JNumber 0 0)]
       ''vibration'' (JBool True) = JBool False"
    "optionOfRecord
       [(map of_char ''bedLeveling'', JNull), (map of_char ''vibration'', JBool True),
        (map of_char ''vibration'', JBool False), (map of_char ''motorNoise'', JNumber 0 0)]
       ''motorNoise'' (JBool True) = JNumber 0 0"
    "optionOfRecord
       [(map of_char ''bedLeveling'', JNull), (map of_char ''vibration'', JBool True),
        (map of_char ''vibration'', JBool False), (map of_char ''motorNoise'', JNumber 0 0)]
       ''nozzleOffset'' (JBool False) = JBool False"
    "optionOfRecord
       [(map of_char ''bedLeveling'', JNull), (map of_char ''vibration'', JBool True),
        (map of_char ''vibration'', JBool False), (map of_char ''motorNoise'', JNumber 0 0)]
       ''highTempHeatbed'' (JBool False) = JBool False"
    by (simp_all add: optionOfRecord_def)
  have notobj: "\<forall>members. JArray [JBool False] \<noteq> JObject members" by simp
  from initialization [where store = "Map.empty" and p = singleNozzle and s = None]
  have a: "\<exists>m. mount singleNozzle None Map.empty = Inr m \<and> options m = defaultOptions False"
    by (simp add: dual)
  from initialization [where p = singleNozzle and s = None
      and store = "[storageKey singleNozzle \<mapsto>
             Text ''{\"bedLeveling\":null,\"vibration\":true,\"vibration\":false,\"motorNoise\":0}'']"
      and saved = "''{\"bedLeveling\":null,\"vibration\":true,\"vibration\":false,\"motorNoise\":0}''"
      and members = "[(map of_char ''bedLeveling'', JNull), (map of_char ''vibration'', JBool True),
          (map of_char ''vibration'', JBool False), (map of_char ''motorNoise'', JNumber 0 0)]"]
    JSON_parse_mixed(1)
  have b: "\<exists>m. mount singleNozzle None
          [storageKey singleNozzle \<mapsto>
             Text ''{\"bedLeveling\":null,\"vibration\":true,\"vibration\":false,\"motorNoise\":0}'']
          = Inr m
        \<and> options m =
            \<lparr>bedLeveling = JBool True, vibration = JBool False, motorNoise = JNumber 0 0,
             nozzleOffset = JBool False, highTempHeatbed = JBool False\<rparr>"
    unfolding opts dual by simp
  from initialization [where p = singleNozzle and s = None
      and store = "[storageKey singleNozzle \<mapsto> Text ''[false]'']" and saved = "''[false]''"
      and v = "JArray [JBool False]"] JSON_parse_mixed(2) notobj
  have c: "\<exists>m. mount singleNozzle None [storageKey singleNozzle \<mapsto> Text ''[false]''] = Inr m
        \<and> options m = defaultOptions False"
    by (simp add: dual)
  from initialization [where p = singleNozzle and s = None
      and store = "[storageKey singleNozzle \<mapsto> Text ''{'']" and saved = "''{''"
      and err = SyntaxError] JSON_parse_brace
  have d: "mount singleNozzle None [storageKey singleNozzle \<mapsto> Text ''{''] = Inl SyntaxError"
    by simp
  from initialization [where p = singleNozzle and s = None and sel = scenarioA
      and store = "[storageKey singleNozzle \<mapsto> JSON_stringify (booleans scenarioA)]"]
  have e: "\<exists>m. mount singleNozzle None [storageKey singleNozzle \<mapsto> JSON_stringify (booleans scenarioA)]
          = Inr m
        \<and> options m = booleans scenarioA"
    by simp
  from a b c d e JSON_parse_mixed JSON_parse_brace show ?thesis by blast
qed

text \<open>Mounting on the stored text of one opening brace fails with the syntax error.\<close>

theorem malformed_record_counterexample:
  "mount singleNozzle None [''calibration_options_1'' \<mapsto> Text ''{''] = Inl SyntaxError"
  by (simp add: mount_def storageKey_singleNozzle parsedOptions_def parseStored_def
      JSON_parse_brace)

end
